theory Spec2Isabelle
  imports Complex_Main
begin

section \<open>Data model\<close>

text \<open>
  The domain classes live in \<^verbatim>\<open>src/domain/models.py\<close> and \<^verbatim>\<open>src/domain/schemas.py\<close>, which
  are not part of the sources at hand; the records below carry exactly the fields that
  \<^verbatim>\<open>route_optimizer.py\<close>, \<^verbatim>\<open>poi_planner.py\<close> and the tests read or write. Field names
  that occur in more than one class are prefixed.  UUIDs are natural numbers, times and
  dates are strings, Python numbers (\<^verbatim>\<open>int\<close> or \<^verbatim>\<open>float\<close>) are reals.
\<close>

datatype BlockType = MEAL | ACTIVITY | NIGHTLIFE | REST | TRAVEL

datatype BudgetLevel = LOW | MEDIUM | HIGH

record POICandidate =
  poi_id :: nat
  name :: string
  category :: string
  tags :: "string list"
  rating :: "real option"
  location :: string
  lat :: "real option"
  lon :: "real option"
  rank_score :: real

record SkeletonBlock =
  block_type :: BlockType
  start_time :: string
  end_time :: string
  theme :: "string option"
  desired_categories :: "string list"

record DaySkeleton =
  day_number :: int
  date :: string
  day_theme :: string
  blocks :: "SkeletonBlock list"

record POIPlanBlock =
  pb_day_number :: int
  pb_block_index :: int
  pb_block_theme :: string
  pb_block_type :: BlockType
  candidates :: "POICandidate list"

record ItineraryBlock =
  ib_block_type :: BlockType
  ib_start_time :: string
  ib_end_time :: string
  poi :: "POICandidate option"
  travel_time_from_prev :: real
  travel_distance_meters :: "real option"
  travel_polyline :: "string option"
  ib_notes :: "string option"

record ItineraryDay =
  id_day_number :: int
  id_date :: string
  id_theme :: string
  id_blocks :: "ItineraryBlock list"

record TravelTimeResult =
  duration_minutes :: real
  distance_meters :: "real option"
  polyline :: "string option"

text \<open>Exceptions of the pipeline: the \<^verbatim>\<open>ValueError\<close>s raised by the services themselves,
  the \<^verbatim>\<open>ValueError\<close> of a provider constructed without its API key, and whatever a
  collaborator (travel-time provider, POI provider) raises at call time.\<close>

datatype error =
    TripNotFound
  | NoMacroPlan
  | NoPOIPlan
  | ConfigurationError
  | ProviderError string

section \<open>Route and time optimizer (\<^verbatim>\<open>route_optimizer.py\<close>)\<close>

text \<open>\<^verbatim>\<open>BLOCK_TYPES_NEEDING_POIS\<close> and \<^verbatim>\<open>_block_needs_poi\<close>.\<close>

definition BLOCK_TYPES_NEEDING_POIS :: "BlockType set" where
  "BLOCK_TYPES_NEEDING_POIS = {MEAL, ACTIVITY, NIGHTLIFE}"

definition block_needs_poi :: "BlockType \<Rightarrow> bool" where
  "block_needs_poi bt \<longleftrightarrow> bt \<in> BLOCK_TYPES_NEEDING_POIS"

text \<open>The search loop of \<^verbatim>\<open>_select_poi_for_block\<close>: the first POI plan block whose
  day number and block index both match, found by a scan that stops at the first hit.\<close>

fun matching_block :: "int \<Rightarrow> int \<Rightarrow> POIPlanBlock list \<Rightarrow> POIPlanBlock option" where
  "matching_block d i [] = None"
| "matching_block d i (pb # pbs) =
     (if pb_day_number pb = d \<and> pb_block_index pb = i then Some pb
      else matching_block d i pbs)"

text \<open>\<^verbatim>\<open>_select_poi_for_block\<close>: \<^verbatim>\<open>None\<close> when no block matches or its candidate list is
  empty, otherwise \<^verbatim>\<open>candidates[0]\<close>.\<close>

definition select_poi_for_block ::
  "int \<Rightarrow> int \<Rightarrow> POIPlanBlock list \<Rightarrow> POICandidate option" where
  "select_poi_for_block d i poi_plan_blocks =
     (case matching_block d i poi_plan_blocks of
        None \<Rightarrow> None
      | Some mb \<Rightarrow> (case candidates mb of [] \<Rightarrow> None | c # _ \<Rightarrow> Some c))"

text \<open>Python's \<^verbatim>\<open>theme or default\<close> on an optional string: the default replaces both
  \<^verbatim>\<open>None\<close> and the empty string.\<close>

definition str_or :: "string option \<Rightarrow> string \<Rightarrow> string" where
  "str_or s dflt = (case s of None \<Rightarrow> dflt | Some t \<Rightarrow> if t = [] then dflt else t)"

definition block_notes :: "SkeletonBlock \<Rightarrow> string option" where
  "block_notes sb =
     (if block_type sb = REST then Some (str_or (theme sb) ''Rest at hotel'')
      else if block_type sb = TRAVEL then Some (str_or (theme sb) ''Travel time'')
      else None)"

definition make_itinerary_block ::
  "SkeletonBlock \<Rightarrow> POICandidate option \<Rightarrow> real \<Rightarrow> real option \<Rightarrow> string option
   \<Rightarrow> ItineraryBlock" where
  "make_itinerary_block sb selected_poi tt td tp =
     \<lparr> ib_block_type = block_type sb,
       ib_start_time = start_time sb,
       ib_end_time = end_time sb,
       poi = selected_poi,
       travel_time_from_prev = tt,
       travel_distance_meters = td,
       travel_polyline = tp,
       ib_notes = block_notes sb \<rparr>"

text \<open>
  One iteration of the inner loop of \<^verbatim>\<open>generate_itinerary\<close>.  The collaborators from
  \<^verbatim>\<open>travel_time.py\<close> (not among the sources) are parameters: \<open>from_poi\<close> is
  \<^verbatim>\<open>TravelLocation.from_poi\<close>, \<open>estimate_travel\<close> is the provider's method, which may
  raise.  The result is the itinerary block together with the new value of the
  \<^verbatim>\<open>prev_poi\<close> cursor.
\<close>

definition process_block ::
  "(POICandidate option \<Rightarrow> 'loc) \<Rightarrow> ('loc \<Rightarrow> 'loc \<Rightarrow> error + TravelTimeResult)
   \<Rightarrow> int \<Rightarrow> POIPlanBlock list \<Rightarrow> nat \<Rightarrow> POICandidate option \<Rightarrow> SkeletonBlock
   \<Rightarrow> error + (ItineraryBlock \<times> POICandidate option)" where
  "process_block from_poi estimate_travel d poi_plan_blocks block_index prev_poi sb =
     (if block_needs_poi (block_type sb) then
        (let selected_poi = select_poi_for_block d (int block_index) poi_plan_blocks in
         if prev_poi \<noteq> None \<or> selected_poi \<noteq> None then
           (case estimate_travel (from_poi prev_poi) (from_poi selected_poi) of
              Inl e \<Rightarrow> Inl e
            | Inr travel_result \<Rightarrow>
                Inr (make_itinerary_block sb selected_poi
                       (duration_minutes travel_result)
                       (distance_meters travel_result)
                       (polyline travel_result),
                     selected_poi))
         else Inr (make_itinerary_block sb selected_poi 0 None None, selected_poi))
      else Inr (make_itinerary_block sb None 0 None None, prev_poi))"

text \<open>The inner \<^verbatim>\<open>for block_index, skeleton_block in enumerate(day_skeleton.blocks)\<close>
  loop, from index \<open>block_index\<close> on with cursor \<open>prev_poi\<close>.\<close>

fun itinerary_blocks ::
  "(POICandidate option \<Rightarrow> 'loc) \<Rightarrow> ('loc \<Rightarrow> 'loc \<Rightarrow> error + TravelTimeResult)
   \<Rightarrow> int \<Rightarrow> POIPlanBlock list \<Rightarrow> nat \<Rightarrow> POICandidate option \<Rightarrow> SkeletonBlock list
   \<Rightarrow> error + ItineraryBlock list" where
  "itinerary_blocks from_poi estimate_travel d plan block_index prev_poi [] = Inr []"
| "itinerary_blocks from_poi estimate_travel d plan block_index prev_poi (sb # sbs) =
     (case process_block from_poi estimate_travel d plan block_index prev_poi sb of
        Inl e \<Rightarrow> Inl e
      | Inr (ib, prev_poi') \<Rightarrow>
          (case itinerary_blocks from_poi estimate_travel d plan (Suc block_index) prev_poi' sbs of
             Inl e \<Rightarrow> Inl e
           | Inr ibs \<Rightarrow> Inr (ib # ibs)))"

text \<open>One pass of the outer loop: a day starts with \<^verbatim>\<open>prev_poi = None\<close> at index 0.\<close>

definition itinerary_day ::
  "(POICandidate option \<Rightarrow> 'loc) \<Rightarrow> ('loc \<Rightarrow> 'loc \<Rightarrow> error + TravelTimeResult)
   \<Rightarrow> POIPlanBlock list \<Rightarrow> DaySkeleton \<Rightarrow> error + ItineraryDay" where
  "itinerary_day from_poi estimate_travel plan day_skeleton =
     (case itinerary_blocks from_poi estimate_travel (day_number day_skeleton) plan 0 None
             (blocks day_skeleton) of
        Inl e \<Rightarrow> Inl e
      | Inr ibs \<Rightarrow>
          Inr \<lparr> id_day_number = day_number day_skeleton,
                id_date = date day_skeleton,
                id_theme = day_theme day_skeleton,
                id_blocks = ibs \<rparr>)"

text \<open>The outer \<^verbatim>\<open>for day_skeleton in macro_plan.days\<close> loop.\<close>

fun itinerary_days ::
  "(POICandidate option \<Rightarrow> 'loc) \<Rightarrow> ('loc \<Rightarrow> 'loc \<Rightarrow> error + TravelTimeResult)
   \<Rightarrow> POIPlanBlock list \<Rightarrow> DaySkeleton list \<Rightarrow> error + ItineraryDay list" where
  "itinerary_days from_poi estimate_travel plan [] = Inr []"
| "itinerary_days from_poi estimate_travel plan (day_skeleton # rest) =
     (case itinerary_day from_poi estimate_travel plan day_skeleton of
        Inl e \<Rightarrow> Inl e
      | Inr iday \<Rightarrow>
          (case itinerary_days from_poi estimate_travel plan rest of
             Inl e \<Rightarrow> Inl e
           | Inr idays \<Rightarrow> Inr (iday # idays)))"


text \<open>
  The persistent state that \<^verbatim>\<open>generate_itinerary\<close> reads and writes.  The trip and the
  macro plan are fetched by \<^verbatim>\<open>TripSpecCollector.get_trip\<close> and
  \<^verbatim>\<open>MacroPlanner.get_macro_plan\<close>; both are lookups by trip id.  The row of
  \<^verbatim>\<open>ItineraryModel\<close> keeps the POI plan and the itinerary as JSON documents; the model
  stores the values themselves (\<^verbatim>\<open>model_dump\<close> followed by the constructor is the
  identity on them).
\<close>

record TripSpec =
  city :: string
  budget :: BudgetLevel
  hotel_location :: "string option"

record MacroPlan =
  days :: "DaySkeleton list"

record ItineraryModel =
  im_poi_plan :: "POIPlanBlock list option"
  im_days :: "ItineraryDay list option"
  poi_plan_created_at :: "string option"
  itinerary_created_at :: "string option"
  im_created_at :: "string option"
  im_updated_at :: "string option"

record Database =
  trips :: "nat \<rightharpoonup> TripSpec"
  macro_plans :: "nat \<rightharpoonup> MacroPlan"
  itineraries :: "nat \<rightharpoonup> ItineraryModel"

record ItineraryResponse =
  ir_trip_id :: nat
  ir_days :: "ItineraryDay list"
  ir_created_at :: string

text \<open>
  \<^verbatim>\<open>generate_itinerary\<close>: the three loading steps with their \<^verbatim>\<open>ValueError\<close>s (an empty
  POI plan is falsy and counts as missing), the generation loop, and the write-back
  of \<^verbatim>\<open>days\<close>, \<^verbatim>\<open>itinerary_created_at\<close> and \<^verbatim>\<open>updated_at\<close> on the row that was read.
  \<open>now\<close> is \<^verbatim>\<open>datetime.utcnow()\<close>.
\<close>

definition generate_itinerary ::
  "(POICandidate option \<Rightarrow> 'loc) \<Rightarrow> ('loc \<Rightarrow> 'loc \<Rightarrow> error + TravelTimeResult)
   \<Rightarrow> string \<Rightarrow> nat \<Rightarrow> Database \<Rightarrow> error + (Database \<times> ItineraryResponse)" where
  "generate_itinerary from_poi estimate_travel now trip_id db =
     (case trips db trip_id of
        None \<Rightarrow> Inl TripNotFound
      | Some trip_spec \<Rightarrow>
     (case macro_plans db trip_id of
        None \<Rightarrow> Inl NoMacroPlan
      | Some macro_plan \<Rightarrow>
     (case itineraries db trip_id of
        None \<Rightarrow> Inl NoPOIPlan
      | Some itinerary_model \<Rightarrow>
     (case im_poi_plan itinerary_model of
        None \<Rightarrow> Inl NoPOIPlan
      | Some poi_plan_blocks \<Rightarrow>
          if poi_plan_blocks = [] then Inl NoPOIPlan
          else
            (case itinerary_days from_poi estimate_travel poi_plan_blocks (days macro_plan) of
               Inl e \<Rightarrow> Inl e
             | Inr itinerary_days' \<Rightarrow>
                 Inr (db \<lparr> itineraries := (itineraries db)
                             (trip_id \<mapsto> itinerary_model
                                \<lparr> im_days := Some itinerary_days',
                                  itinerary_created_at := Some now,
                                  im_updated_at := Some now \<rparr>) \<rparr>,
                      \<lparr> ir_trip_id = trip_id,
                        ir_days = itinerary_days',
                        ir_created_at = now @ ''Z'' \<rparr>))))))"

text \<open>\<^verbatim>\<open>get_itinerary\<close>: the stored itinerary, or nothing when the row or its days are
  missing or empty.\<close>

definition get_itinerary :: "nat \<Rightarrow> Database \<Rightarrow> ItineraryDay list option" where
  "get_itinerary trip_id db =
     (case itineraries db trip_id of
        None \<Rightarrow> None
      | Some itinerary_model \<Rightarrow>
          (case im_days itinerary_model of
             None \<Rightarrow> None
           | Some ds \<Rightarrow> if ds = [] then None else Some ds))"

text \<open>The ghost value of the \<^verbatim>\<open>prev_poi\<close> cursor after the loop has run over a prefix
  of the day's blocks.\<close>

fun cursor_after ::
  "int \<Rightarrow> POIPlanBlock list \<Rightarrow> nat \<Rightarrow> POICandidate option \<Rightarrow> SkeletonBlock list
   \<Rightarrow> POICandidate option" where
  "cursor_after d plan k prev [] = prev"
| "cursor_after d plan k prev (sb # sbs) =
     cursor_after d plan (Suc k)
       (if block_needs_poi (block_type sb) then select_poi_for_block d (int k) plan else prev)
       sbs"

section \<open>POI planner (\<^verbatim>\<open>poi_planner.py\<close>)\<close>

definition CANDIDATES_PER_BLOCK :: nat where
  "CANDIDATES_PER_BLOCK = 3"

definition block_needs_pois :: "BlockType \<Rightarrow> bool" where
  "block_needs_pois bt \<longleftrightarrow> bt \<in> {MEAL, ACTIVITY, NIGHTLIFE}"

text \<open>The keyword arguments of one call of \<^verbatim>\<open>poi_provider.search_pois\<close>.\<close>

record POIQuery =
  q_city :: string
  q_desired_categories :: "string list"
  q_budget :: BudgetLevel
  q_limit :: nat
  q_center_location :: "string option"

text \<open>
  The provider (\<^verbatim>\<open>poi_providers.py\<close>, not among the sources) is a parameter.  It reads
  and writes a store and the network, so a call takes the provider's state \<open>'s\<close> and
  returns the new one, with either the candidates or the exception it raised.
\<close>

type_synonym 's POIProvider = "POIQuery \<Rightarrow> 's \<Rightarrow> (error + POICandidate list) \<times> 's"

text \<open>
  The inner loop of \<^verbatim>\<open>generate_poi_plan\<close> over \<^verbatim>\<open>enumerate(day.blocks)\<close>, from index
  \<open>block_index\<close> on.  It returns the POI plan blocks and the provider's state.  An
  exception of the provider ends the loop.
\<close>

fun poi_blocks_of_day ::
  "'s POIProvider \<Rightarrow> TripSpec \<Rightarrow> int \<Rightarrow> nat \<Rightarrow> SkeletonBlock list \<Rightarrow> 's
   \<Rightarrow> error + (POIPlanBlock list \<times> 's)" where
  "poi_blocks_of_day poi_provider trip_spec d block_index [] s = Inr ([], s)"
| "poi_blocks_of_day poi_provider trip_spec d block_index (block # rest) s =
     (if \<not> block_needs_pois (block_type block)
      then poi_blocks_of_day poi_provider trip_spec d (Suc block_index) rest s
      else
        (case poi_provider
                \<lparr> q_city = city trip_spec,
                  q_desired_categories = desired_categories block,
                  q_budget = budget trip_spec,
                  q_limit = CANDIDATES_PER_BLOCK,
                  q_center_location = hotel_location trip_spec \<rparr> s of
           (Inl e, s') \<Rightarrow> Inl e
         | (Inr cands, s') \<Rightarrow>
             (case poi_blocks_of_day poi_provider trip_spec d (Suc block_index) rest s' of
                Inl e \<Rightarrow> Inl e
              | Inr (poi_blocks, s'') \<Rightarrow>
                  Inr (\<lparr> pb_day_number = d,
                         pb_block_index = int block_index,
                         pb_block_theme = str_or (theme block) [],
                         pb_block_type = block_type block,
                         candidates = cands \<rparr> # poi_blocks,
                       s''))))"

text \<open>The outer loop over \<^verbatim>\<open>macro_plan.days\<close>.\<close>

fun poi_blocks_of_days ::
  "'s POIProvider \<Rightarrow> TripSpec \<Rightarrow> DaySkeleton list \<Rightarrow> 's
   \<Rightarrow> error + (POIPlanBlock list \<times> 's)" where
  "poi_blocks_of_days poi_provider trip_spec [] s = Inr ([], s)"
| "poi_blocks_of_days poi_provider trip_spec (day # rest) s =
     (case poi_blocks_of_day poi_provider trip_spec (day_number day) 0 (blocks day) s of
        Inl e \<Rightarrow> Inl e
      | Inr (poi_blocks, s') \<Rightarrow>
          (case poi_blocks_of_days poi_provider trip_spec rest s' of
             Inl e \<Rightarrow> Inl e
           | Inr (poi_blocks', s'') \<Rightarrow> Inr (poi_blocks @ poi_blocks', s'')))"

record POIPlanResponse =
  pr_trip_id :: nat
  pr_blocks :: "POIPlanBlock list"
  pr_created_at :: string

text \<open>
  \<^verbatim>\<open>generate_poi_plan\<close>: the two loading steps with their \<^verbatim>\<open>ValueError\<close>s, the loops,
  and the write-back: the POI plan and two timestamps on the existing row, or a new row.
  The result carries the response and the provider's state.
\<close>

definition generate_poi_plan ::
  "'s POIProvider \<Rightarrow> string \<Rightarrow> nat \<Rightarrow> Database \<Rightarrow> 's
   \<Rightarrow> error + (Database \<times> POIPlanResponse \<times> 's)" where
  "generate_poi_plan poi_provider now trip_id db s =
     (case trips db trip_id of
        None \<Rightarrow> Inl TripNotFound
      | Some trip_spec \<Rightarrow>
     (case macro_plans db trip_id of
        None \<Rightarrow> Inl NoMacroPlan
      | Some macro_plan \<Rightarrow>
     (case poi_blocks_of_days poi_provider trip_spec (days macro_plan) s of
        Inl e \<Rightarrow> Inl e
      | Inr (poi_blocks, s') \<Rightarrow>
          (let itinerary_model =
                 (case itineraries db trip_id of
                    Some row \<Rightarrow> row \<lparr> im_poi_plan := Some poi_blocks,
                                       poi_plan_created_at := Some now,
                                       im_updated_at := Some now \<rparr>
                  | None \<Rightarrow> \<lparr> im_poi_plan = Some poi_blocks, im_days = None,
                               poi_plan_created_at = Some now,
                               itinerary_created_at = None,
                               im_created_at = Some now,
                               im_updated_at = Some now \<rparr>)
           in Inr (db \<lparr> itineraries := (itineraries db)(trip_id \<mapsto> itinerary_model) \<rparr>,
                   \<lparr> pr_trip_id = trip_id, pr_blocks = poi_blocks,
                     pr_created_at = now @ ''Z'' \<rparr>,
                   s')))))"

text \<open>
  A provider under observation, as the mocks of the tests keep their call lists: it
  answers as the provider it wraps, and appends every call, the query it received
  together with its answer, to a record in front of the wrapped provider's state.
\<close>

definition recording ::
  "'s POIProvider \<Rightarrow> ((POIQuery \<times> (error + POICandidate list)) list \<times> 's) POIProvider" where
  "recording poi_provider query st =
     (case poi_provider query (snd st) of
        (answer, s') \<Rightarrow> (answer, (fst st @ [(query, answer)], s')))"

text \<open>
  The venue slots of a macro plan: day number, block index and block of every meal,
  activity or nightlife block, day by day in the order of the skeleton.
\<close>

definition venue_slots_of_day :: "DaySkeleton \<Rightarrow> (int \<times> nat \<times> SkeletonBlock) list" where
  "venue_slots_of_day day =
     map (\<lambda>(i, block). (day_number day, i, block))
       (filter (\<lambda>(i, block). block_type block \<in> {MEAL, ACTIVITY, NIGHTLIFE})
          (enumerate 0 (blocks day)))"

definition venue_slots :: "MacroPlan \<Rightarrow> (int \<times> nat \<times> SkeletonBlock) list" where
  "venue_slots macro_plan = concat (map venue_slots_of_day (days macro_plan))"

section \<open>Composite candidate selector\<close>

text \<open>
  Deduplication by identity with a list of the identities seen so far, keeping the
  first candidate of every identity.
\<close>

fun dedup_by_id :: "nat list \<Rightarrow> POICandidate list \<Rightarrow> POICandidate list" where
  "dedup_by_id seen [] = []"
| "dedup_by_id seen (p # ps) =
     (if poi_id p \<in> set seen then dedup_by_id seen ps
      else p # dedup_by_id (poi_id p # seen) ps)"

text \<open>
  Modelled from the spec: \<^verbatim>\<open>CompositePOIProvider.search_pois\<close> of
  \<^verbatim>\<open>src/infrastructure/poi_providers.py\<close>, which is not among the sources; the model
  follows the five steps of section 4.1 of the specification.  The local source is queried
  first; if it answers with at least \<open>limit\<close> candidates they are returned as they are.
  Otherwise the external source is queried, an error of it counts as no results, and the
  local results followed by the external ones are deduplicated by identity (first
  occurrence kept) and cut to \<open>limit\<close>.  The specification names no handler for a failure
  of the local source, so it surfaces.  Both sources work on a common state \<open>'s\<close> (the
  store and the network).  The second component of the result counts the calls of the
  external source.
\<close>

definition composite_search_pois ::
  "'s POIProvider \<Rightarrow> 's POIProvider \<Rightarrow> POIQuery \<Rightarrow> 's
   \<Rightarrow> (error + POICandidate list) \<times> nat \<times> 's" where
  "composite_search_pois db_provider external_provider query s =
     (case db_provider query s of
        (Inl e, s1) \<Rightarrow> (Inl e, 0, s1)
      | (Inr db_results, s1) \<Rightarrow>
          if length db_results \<ge> q_limit query then (Inr db_results, 0, s1)
          else
            (case external_provider query s1 of
               (answer, s2) \<Rightarrow>
                 (let external_results = (case answer of Inl e \<Rightarrow> [] | Inr ps \<Rightarrow> ps);
                      merged = dedup_by_id [] (db_results @ external_results)
                  in (Inr (take (q_limit query) merged), 1, s2))))"

text \<open>
  The specification's wording of the merge, position by position: a candidate of a list
  is a first occurrence when no candidate before it has its identity.
\<close>

definition first_occurrences :: "POICandidate list \<Rightarrow> POICandidate list" where
  "first_occurrences ps =
     map snd (filter (\<lambda>(i, p). poi_id p \<notin> poi_id ` set (take i ps)) (enumerate 0 ps))"

section \<open>Travel-time provider factory\<close>

text \<open>The settings of \<^verbatim>\<open>config.py\<close> that concern travel time.\<close>

record Settings =
  travel_time_provider :: string
  google_maps_api_key :: "string option"
  google_routes_base_url :: string
  google_routes_timeout_seconds :: nat

record GoogleMapsProvider =
  gm_api_key :: string
  gm_base_url :: string
  gm_timeout_seconds :: nat
  gm_default_mode :: string

datatype TravelTimeProvider =
    GoogleMapsTravelTimeProvider GoogleMapsProvider
  | SimpleHeuristicTravelTimeProvider

text \<open>Python's \<^verbatim>\<open>str.lower\<close> on the ASCII letters; strings are byte lists.\<close>

definition lower_char :: "char \<Rightarrow> char" where
  "lower_char c =
     (case map_of (zip ''ABCDEFGHIJKLMNOPQRSTUVWXYZ'' ''abcdefghijklmnopqrstuvwxyz'') c of
        Some l \<Rightarrow> l
      | None \<Rightarrow> c)"

definition lower :: "string \<Rightarrow> string" where
  "lower s = map lower_char s"

text \<open>
  Modelled from the spec: the constructor of \<^verbatim>\<open>GoogleMapsTravelTimeProvider\<close> in
  \<^verbatim>\<open>src/infrastructure/travel_time.py\<close>, which is not among the sources.  The
  specification (section 4.2) has it fail fast with a configuration error unless the
  API credential is present and non-empty; \<^verbatim>\<open>test_travel_time_factory.py\<close> expects a
  \<^verbatim>\<open>ValueError\<close> for \<^verbatim>\<open>None\<close> and for the empty string, and the default mode
  \<^verbatim>\<open>DRIVE\<close>.
\<close>

definition new_google_maps_provider ::
  "string option \<Rightarrow> string \<Rightarrow> nat \<Rightarrow> error + TravelTimeProvider" where
  "new_google_maps_provider api_key base_url timeout_seconds =
     (case api_key of
        None \<Rightarrow> Inl ConfigurationError
      | Some k \<Rightarrow>
          if k = [] then Inl ConfigurationError
          else Inr (GoogleMapsTravelTimeProvider
                      \<lparr> gm_api_key = k, gm_base_url = base_url,
                        gm_timeout_seconds = timeout_seconds,
                        gm_default_mode = ''DRIVE'' \<rparr>))"

text \<open>
  Modelled from the spec: \<^verbatim>\<open>get_travel_time_provider\<close> of the same missing file.  The
  selection policy of section 4.2: the configured name, lower-cased, is \<^verbatim>\<open>google_maps\<close>
  and the credential is present and non-empty, then the primary provider is constructed
  from the settings; every other combination gives the heuristic provider.
\<close>

definition get_travel_time_provider :: "Settings \<Rightarrow> error + TravelTimeProvider" where
  "get_travel_time_provider settings =
     (let provider = lower (travel_time_provider settings) in
      if provider = ''google_maps''
         \<and> google_maps_api_key settings \<noteq> None \<and> google_maps_api_key settings \<noteq> Some []
      then new_google_maps_provider (google_maps_api_key settings)
             (google_routes_base_url settings) (google_routes_timeout_seconds settings)
      else Inr SimpleHeuristicTravelTimeProvider)"

text \<open>
  Equality of strings up to the case of ASCII letters, told character by character:
  two characters are the same letter when they are equal or one is the capital of the
  other.
\<close>

definition same_letter :: "char \<Rightarrow> char \<Rightarrow> bool" where
  "same_letter c d \<longleftrightarrow>
     c = d
     \<or> (c, d) \<in> set (zip ''ABCDEFGHIJKLMNOPQRSTUVWXYZ'' ''abcdefghijklmnopqrstuvwxyz'')
     \<or> (d, c) \<in> set (zip ''ABCDEFGHIJKLMNOPQRSTUVWXYZ'' ''abcdefghijklmnopqrstuvwxyz'')"

definition equal_ignoring_case :: "string \<Rightarrow> string \<Rightarrow> bool" where
  "equal_ignoring_case s t \<longleftrightarrow> list_all2 same_letter s t"

section \<open>Reading a generated day\<close>

text \<open>The previous venue of position \<open>i\<close> in a day of a generated itinerary: the venue of
  the last meal, activity or nightlife block before \<open>i\<close>, if there is such a block and
  it has a venue.\<close>

definition previous_venue :: "ItineraryBlock list \<Rightarrow> nat \<Rightarrow> POICandidate option" where
  "previous_venue ibs i =
     (let venue_blocks = filter (\<lambda>ib. block_needs_poi (ib_block_type ib)) (take i ibs)
      in if venue_blocks = [] then None else poi (last venue_blocks))"

section \<open>Example data\<close>

text \<open>A two-day trip to Paris: a day with a breakfast block, a rest block and a dinner
  block, and a second day with a single nightlife block for which the POI plan has no
  entry.  Two cafes and a restaurant are the candidates.\<close>

definition cafe_a :: POICandidate where
  "cafe_a = \<lparr> poi_id = 1, name = ''Cafe A'', category = ''cafe'', tags = [''cafe''],
              rating = Some 4, location = ''1 Rue A, Paris'', lat = Some 48, lon = Some 2,
              rank_score = 18 \<rparr>"

definition cafe_b :: POICandidate where
  "cafe_b = \<lparr> poi_id = 2, name = ''Cafe B'', category = ''cafe'', tags = [''cafe''],
              rating = Some 3, location = ''2 Rue B, Paris'', lat = Some 49, lon = Some 2,
              rank_score = 15 \<rparr>"

definition bistro_c :: POICandidate where
  "bistro_c = \<lparr> poi_id = 3, name = ''Bistro C'', category = ''restaurant'',
                tags = [''french''], rating = Some 5, location = ''3 Rue C, Paris'',
                lat = Some 48, lon = Some 3, rank_score = 20 \<rparr>"

definition breakfast_block :: SkeletonBlock where
  "breakfast_block = \<lparr> block_type = MEAL, start_time = ''09:00'', end_time = ''10:00'',
                       theme = Some ''Breakfast'', desired_categories = [''cafe''] \<rparr>"

definition rest_block :: SkeletonBlock where
  "rest_block = \<lparr> block_type = REST, start_time = ''14:00'', end_time = ''16:00'',
                  theme = None, desired_categories = [] \<rparr>"

definition dinner_block :: SkeletonBlock where
  "dinner_block = \<lparr> block_type = MEAL, start_time = ''19:00'', end_time = ''21:00'',
                    theme = Some ''Dinner'', desired_categories = [''restaurant''] \<rparr>"

definition nightlife_block :: SkeletonBlock where
  "nightlife_block = \<lparr> block_type = NIGHTLIFE, start_time = ''22:00'', end_time = ''23:30'',
                       theme = None, desired_categories = [''bar''] \<rparr>"

definition paris_day :: DaySkeleton where
  "paris_day = \<lparr> day_number = 1, date = ''2024-06-15'', day_theme = ''Arrival'',
                 blocks = [breakfast_block, rest_block, dinner_block] \<rparr>"

definition paris_night :: DaySkeleton where
  "paris_night = \<lparr> day_number = 2, date = ''2024-06-16'', day_theme = ''Night out'',
                   blocks = [nightlife_block] \<rparr>"

definition paris_macro_plan :: MacroPlan where
  "paris_macro_plan = \<lparr> days = [paris_day, paris_night] \<rparr>"

definition paris_poi_plan :: "POIPlanBlock list" where
  "paris_poi_plan =
     [\<lparr> pb_day_number = 1, pb_block_index = 0, pb_block_theme = ''Breakfast'',
        pb_block_type = MEAL, candidates = [cafe_a, cafe_b] \<rparr>,
      \<lparr> pb_day_number = 1, pb_block_index = 2, pb_block_theme = ''Dinner'',
        pb_block_type = MEAL, candidates = [bistro_c] \<rparr>]"

definition paris_trip :: TripSpec where
  "paris_trip = \<lparr> city = ''Paris'', budget = MEDIUM, hotel_location = Some ''Hotel H'' \<rparr>"

definition paris_row_before :: ItineraryModel where
  "paris_row_before =
     \<lparr> im_poi_plan = Some paris_poi_plan, im_days = None,
       poi_plan_created_at = Some ''t0'', itinerary_created_at = None,
       im_created_at = Some ''t0'', im_updated_at = Some ''t0'' \<rparr>"

definition paris_db :: Database where
  "paris_db =
     \<lparr> trips = [7 \<mapsto> paris_trip],
       macro_plans = [7 \<mapsto> paris_macro_plan],
       itineraries = [7 \<mapsto> paris_row_before] \<rparr>"

text \<open>A location is the venue's address, if there is a venue.  The example estimator
  answers a quarter of an hour when the origin is unset, nothing for a trip from a place
  to itself, and ten minutes otherwise.\<close>

definition address_of_poi :: "POICandidate option \<Rightarrow> string option" where
  "address_of_poi p = map_option location p"

definition flat_estimate :: "string option \<Rightarrow> string option \<Rightarrow> error + TravelTimeResult" where
  "flat_estimate origin destination =
     Inr \<lparr> duration_minutes = (if origin = None then 15 else if origin = destination then 0 else 10),
           distance_meters = None, polyline = None \<rparr>"

text \<open>The itinerary that the optimizer produces for the example, the row and the
  database after it has been stored at time \<open>now\<close>, and the response.\<close>

definition paris_itinerary :: "ItineraryDay list" where
  "paris_itinerary =
     [\<lparr> id_day_number = 1, id_date = ''2024-06-15'', id_theme = ''Arrival'',
        id_blocks =
          [\<lparr> ib_block_type = MEAL, ib_start_time = ''09:00'', ib_end_time = ''10:00'',
             poi = Some cafe_a, travel_time_from_prev = 15,
             travel_distance_meters = None, travel_polyline = None, ib_notes = None \<rparr>,
           \<lparr> ib_block_type = REST, ib_start_time = ''14:00'', ib_end_time = ''16:00'',
             poi = None, travel_time_from_prev = 0,
             travel_distance_meters = None, travel_polyline = None,
             ib_notes = Some ''Rest at hotel'' \<rparr>,
           \<lparr> ib_block_type = MEAL, ib_start_time = ''19:00'', ib_end_time = ''21:00'',
             poi = Some bistro_c, travel_time_from_prev = 10,
             travel_distance_meters = None, travel_polyline = None, ib_notes = None \<rparr>] \<rparr>,
      \<lparr> id_day_number = 2, id_date = ''2024-06-16'', id_theme = ''Night out'',
        id_blocks =
          [\<lparr> ib_block_type = NIGHTLIFE, ib_start_time = ''22:00'', ib_end_time = ''23:30'',
             poi = None, travel_time_from_prev = 0,
             travel_distance_meters = None, travel_polyline = None, ib_notes = None \<rparr>] \<rparr>]"

definition paris_row :: "string \<Rightarrow> ItineraryModel" where
  "paris_row now =
     \<lparr> im_poi_plan = Some paris_poi_plan, im_days = Some paris_itinerary,
       poi_plan_created_at = Some ''t0'', itinerary_created_at = Some now,
       im_created_at = Some ''t0'', im_updated_at = Some now \<rparr>"

definition paris_db_after :: "string \<Rightarrow> Database" where
  "paris_db_after now = paris_db \<lparr> itineraries := (itineraries paris_db)(7 \<mapsto> paris_row now) \<rparr>"

definition paris_response :: "string \<Rightarrow> ItineraryResponse" where
  "paris_response now =
     \<lparr> ir_trip_id = 7, ir_days = paris_itinerary, ir_created_at = now @ ''Z'' \<rparr>"

text \<open>The same trip with a macro plan of one day that has the breakfast block only,
  and the day the optimizer generates for it.\<close>

definition breakfast_only_db :: Database where
  "breakfast_only_db =
     paris_db \<lparr> macro_plans :=
       [7 \<mapsto> \<lparr> days = [\<lparr> day_number = 1, date = ''2024-06-15'', day_theme = ''Arrival'',
                            blocks = [breakfast_block] \<rparr>] \<rparr>] \<rparr>"

definition breakfast_only_day :: ItineraryDay where
  "breakfast_only_day =
     \<lparr> id_day_number = 1, id_date = ''2024-06-15'', id_theme = ''Arrival'',
       id_blocks =
         [\<lparr> ib_block_type = MEAL, ib_start_time = ''09:00'', ib_end_time = ''10:00'',
            poi = Some cafe_a, travel_time_from_prev = 15,
            travel_distance_meters = None, travel_polyline = None, ib_notes = None \<rparr>] \<rparr>"

text \<open>A provider that counts its calls and answers from a fixed table, the POI plan it
  leads to for the example trip, and the queries the planner sends.\<close>

definition counting_provider :: "nat POIProvider" where
  "counting_provider query calls =
     (Inr (if q_desired_categories query = [''cafe''] then [cafe_a, cafe_b]
           else if q_desired_categories query = [''restaurant''] then [bistro_c]
           else []),
      Suc calls)"

definition paris_planned_blocks :: "POIPlanBlock list" where
  "paris_planned_blocks =
     paris_poi_plan @
     [\<lparr> pb_day_number = 2, pb_block_index = 0, pb_block_theme = [],
        pb_block_type = NIGHTLIFE, candidates = [] \<rparr>]"

definition paris_query :: "string list \<Rightarrow> POIQuery" where
  "paris_query categories =
     \<lparr> q_city = ''Paris'', q_desired_categories = categories, q_budget = MEDIUM,
       q_limit = 3, q_center_location = Some ''Hotel H'' \<rparr>"

text \<open>Sources for the composite selector, in the manner of the mocks of
  \<^verbatim>\<open>test_poi_caching.py\<close>: each answers with a fixed list whatever the query, and
  writes its name into a log, which is the common state.  \<open>cafe_a_again\<close> is a second
  record with the identity of \<open>cafe_a\<close>.\<close>

definition db_source :: "POICandidate list \<Rightarrow> string list POIProvider" where
  "db_source results query calls = (Inr results, calls @ [''db''])"

definition external_source :: "POICandidate list \<Rightarrow> string list POIProvider" where
  "external_source results query calls = (Inr results, calls @ [''external''])"

definition failing_external :: "string list POIProvider" where
  "failing_external query calls = (Inl (ProviderError ''API error''), calls @ [''external''])"

definition cafe_a_again :: POICandidate where
  "cafe_a_again = cafe_a \<lparr> name := ''Cafe A from elsewhere'' \<rparr>"

definition cafe_query :: "nat \<Rightarrow> POIQuery" where
  "cafe_query limit = paris_query [''cafe''] \<lparr> q_limit := limit \<rparr>"

text \<open>Settings as the tests of the factory patch them.\<close>

definition test_settings :: "string \<Rightarrow> string option \<Rightarrow> Settings" where
  "test_settings provider api_key =
     \<lparr> travel_time_provider = provider, google_maps_api_key = api_key,
       google_routes_base_url = ''https://routes.googleapis.com/directions/v2:computeRoutes'',
       google_routes_timeout_seconds = 10 \<rparr>"

section \<open>Properties of the route and time optimizer\<close>

subsection \<open>Shape of the generated itinerary\<close>

lemma matching_block_find:
  "matching_block d i pbs =
     find (\<lambda>pb. pb_day_number pb = d \<and> pb_block_index pb = i) pbs"
  by (induction pbs) auto

lemma process_block_poi:
  assumes "process_block fp est d plan k prev sb = Inr (ib, prev')"
  shows "poi ib = (if block_needs_poi (block_type sb)
                   then select_poi_for_block d (int k) plan else None)"
    and "prev' = (if block_needs_poi (block_type sb)
                  then select_poi_for_block d (int k) plan else prev)"
  using assms
  by (auto simp: process_block_def make_itinerary_block_def Let_def
           split: if_splits sum.splits)

lemma itinerary_blocks_length:
  "itinerary_blocks fp est d plan k prev sbs = Inr ibs \<Longrightarrow> length ibs = length sbs"
proof (induction sbs arbitrary: k prev ibs)
  case Nil
  then show ?case by simp
next
  case (Cons sb sbs)
  then show ?case
    by (auto split: sum.splits prod.splits)
qed

lemma itinerary_blocks_nth:
  assumes "itinerary_blocks fp est d plan k prev sbs = Inr ibs" and "j < length sbs"
  shows "process_block fp est d plan (k + j) (cursor_after d plan k prev (take j sbs)) (sbs ! j)
         = Inr (ibs ! j, cursor_after d plan k prev (take (Suc j) sbs))"
  using assms
proof (induction sbs arbitrary: k prev ibs j)
  case Nil
  then show ?case by simp
next
  case (Cons sb sbs)
  from Cons.prems(1) obtain ib prev' ibs' where
    pb: "process_block fp est d plan k prev sb = Inr (ib, prev')" and
    rest: "itinerary_blocks fp est d plan (Suc k) prev' sbs = Inr ibs'" and
    ibs: "ibs = ib # ibs'"
    by (auto split: sum.splits prod.splits)
  have prev': "prev' = (if block_needs_poi (block_type sb)
                        then select_poi_for_block d (int k) plan else prev)"
    using process_block_poi(2)[OF pb] .
  show ?case
  proof (cases j)
    case 0
    then show ?thesis using pb ibs prev' by simp
  next
    case (Suc j')
    then have "j' < length sbs" using Cons.prems(2) by simp
    from Cons.IH[OF rest this] show ?thesis
      using Suc ibs prev' by simp
  qed
qed

lemma itinerary_days_nth:
  assumes "itinerary_days fp est plan ds = Inr idays"
  shows "length idays = length ds"
    and "n < length ds \<Longrightarrow> itinerary_day fp est plan (ds ! n) = Inr (idays ! n)"
  using assms
proof (induction ds arbitrary: idays n)
  case Nil
  { case 1 then show ?case by simp }
  { case 2 then show ?case by simp }
next
  case (Cons day ds)
  { case 1
    then show ?case using Cons.IH(1)
      by (auto split: sum.splits) }
  { case 2
    then show ?case using Cons.IH(2)
      by (cases n) (auto split: sum.splits) }
qed

lemma itinerary_day_blocks:
  assumes "itinerary_day fp est plan day = Inr iday"
  shows "itinerary_blocks fp est (day_number day) plan 0 None (blocks day)
         = Inr (id_blocks iday)"
  using assms by (auto simp: itinerary_day_def split: sum.splits)

lemma generate_itinerary_days:
  assumes "generate_itinerary fp est now trip_id db = Inr (db', resp)"
    and "macro_plans db trip_id = Some macro_plan"
    and "itineraries db trip_id = Some itinerary_model"
    and "im_poi_plan itinerary_model = Some plan"
  shows "itinerary_days fp est plan (days macro_plan) = Inr (ir_days resp)"
  using assms
  by (auto simp: generate_itinerary_def split: option.splits if_splits sum.splits)

lemma itinerary_day_poi:
  assumes "itinerary_day fp est plan day = Inr iday" and "i < length (blocks day)"
  shows "poi (id_blocks iday ! i) =
           (if block_needs_poi (block_type (blocks day ! i))
            then select_poi_for_block (day_number day) (int i) plan else None)"
proof -
  from itinerary_blocks_nth[OF itinerary_day_blocks[OF assms(1)] assms(2)]
  obtain c c' where
    "process_block fp est (day_number day) plan i c (blocks day ! i) = Inr (id_blocks iday ! i, c')"
    by auto
  from process_block_poi(1)[OF this] show ?thesis .
qed

subsection \<open>The loop body and the cursor\<close>

lemma not_needs_poi_iff: "\<not> block_needs_poi bt \<longleftrightarrow> bt \<in> {REST, TRAVEL}"
  by (cases bt) (simp_all add: block_needs_poi_def BLOCK_TYPES_NEEDING_POIS_def)

lemma needs_poi_iff: "block_needs_poi bt \<longleftrightarrow> bt \<in> {MEAL, ACTIVITY, NIGHTLIFE}"
  by (simp add: block_needs_poi_def BLOCK_TYPES_NEEDING_POIS_def)

lemma process_block_type:
  assumes "process_block fp est d plan k prev sb = Inr (ib, prev')"
  shows "ib_block_type ib = block_type sb"
  using assms
  by (auto simp: process_block_def make_itinerary_block_def Let_def
           split: if_splits sum.splits)

lemma process_block_rest_travel:
  assumes "process_block fp est d plan k prev sb = Inr (ib, prev')"
    and "block_type sb \<in> {REST, TRAVEL}"
  shows "poi ib = None" and "travel_time_from_prev ib = 0"
    and "travel_distance_meters ib = None" and "travel_polyline ib = None"
    and "ib_notes ib \<noteq> None" and "prev' = prev"
  using assms
  by (auto simp: process_block_def make_itinerary_block_def block_notes_def
                 block_needs_poi_def BLOCK_TYPES_NEEDING_POIS_def)

lemma process_block_no_venue:
  assumes "process_block fp est d plan k prev sb = Inr (ib, prev')"
    and "block_needs_poi (block_type sb)" and "prev = None" and "poi ib = None"
  shows "travel_time_from_prev ib = 0 \<and> travel_distance_meters ib = None
         \<and> travel_polyline ib = None"
  using assms
  by (auto simp: process_block_def make_itinerary_block_def Let_def
           split: if_splits sum.splits)

lemma process_block_estimate:
  assumes "process_block fp est d plan k prev sb = Inr (ib, prev')"
    and "block_needs_poi (block_type sb)" and "prev \<noteq> None \<or> poi ib \<noteq> None"
  shows "\<exists>r. est (fp prev) (fp (poi ib)) = Inr r
             \<and> travel_time_from_prev ib = duration_minutes r
             \<and> travel_distance_meters ib = distance_meters r
             \<and> travel_polyline ib = polyline r"
  using assms
  by (auto simp: process_block_def make_itinerary_block_def Let_def
           split: if_splits sum.splits)

lemma cursor_after_snoc:
  "cursor_after d plan k prev (sbs @ [sb]) =
     (if block_needs_poi (block_type sb)
      then select_poi_for_block d (int (k + length sbs)) plan
      else cursor_after d plan k prev sbs)"
  by (induction sbs arbitrary: k prev) auto

lemma cursor_after_append:
  "cursor_after d plan k prev (xs @ ys) =
     cursor_after d plan (k + length xs) (cursor_after d plan k prev xs) ys"
  by (induction xs arbitrary: k prev) auto

lemma cursor_after_unchanged:
  "\<forall>sb \<in> set sbs. \<not> block_needs_poi (block_type sb) \<Longrightarrow> cursor_after d plan k prev sbs = prev"
  by (induction sbs arbitrary: k) auto

lemma day_block_type:
  assumes "itinerary_blocks fp est d plan 0 None sbs = Inr ibs" and "i < length sbs"
  shows "ib_block_type (ibs ! i) = block_type (sbs ! i)"
  using itinerary_blocks_nth[OF assms] process_block_type by fastforce

lemma day_block_poi:
  assumes "itinerary_blocks fp est d plan 0 None sbs = Inr ibs" and "i < length sbs"
  shows "poi (ibs ! i) = (if block_needs_poi (block_type (sbs ! i))
                          then select_poi_for_block d (int i) plan else None)"
  using itinerary_blocks_nth[OF assms] process_block_poi(1) by fastforce

lemma cursor_is_previous_venue:
  assumes "itinerary_blocks fp est d plan 0 None sbs = Inr ibs" and "i \<le> length sbs"
  shows "cursor_after d plan 0 None (take i sbs) = previous_venue ibs i"
  using assms(2)
proof (induction i)
  case 0
  then show ?case by (simp add: previous_venue_def)
next
  case (Suc i)
  then have i: "i < length sbs" by simp
  have len: "length ibs = length sbs"
    using itinerary_blocks_length[OF assms(1)] .
  have ty: "ib_block_type (ibs ! i) = block_type (sbs ! i)"
    using day_block_type[OF assms(1) i] .
  have p: "poi (ibs ! i) = (if block_needs_poi (block_type (sbs ! i))
                          then select_poi_for_block d (int i) plan else None)"
    using day_block_poi[OF assms(1) i] .
  have ih: "cursor_after d plan 0 None (take i sbs) = previous_venue ibs i"
    using Suc.IH i by simp
  have ts: "take (Suc i) sbs = take i sbs @ [sbs ! i]"
    using i by (simp add: take_Suc_conv_app_nth)
  have ti: "take (Suc i) ibs = take i ibs @ [ibs ! i]"
    using i len by (simp add: take_Suc_conv_app_nth)
  show ?case
  proof (cases "block_needs_poi (block_type (sbs ! i))")
    case True
    then show ?thesis
      using ts ti ty p i
      by (simp add: cursor_after_snoc previous_venue_def)
  next
    case False
    then show ?thesis
      using ts ti ty ih
      by (simp add: cursor_after_snoc previous_venue_def)
  qed
qed

lemma cursor_after_last_venue:
  assumes "j < i" and "i \<le> length sbs" and "block_needs_poi (block_type (sbs ! j))"
    and "\<forall>k. j < k \<and> k < i \<longrightarrow> \<not> block_needs_poi (block_type (sbs ! k))"
  shows "cursor_after d plan 0 None (take i sbs) = select_poi_for_block d (int j) plan"
proof -
  let ?mid = "drop (Suc j) (take i sbs)"
  have split: "take i sbs = take (Suc j) sbs @ ?mid"
  proof -
    have "take (Suc j) (take i sbs) = take (Suc j) sbs"
      using assms(1) by (simp add: min_def)
    then show ?thesis
      using append_take_drop_id[of "Suc j" "take i sbs"] by simp
  qed
  have mid: "\<forall>sb \<in> set ?mid. \<not> block_needs_poi (block_type sb)"
  proof
    fix sb assume "sb \<in> set ?mid"
    then obtain m where m: "m < length ?mid" and sb: "sb = ?mid ! m"
      by (auto simp: in_set_conv_nth)
    from m have lt: "Suc j + m < i" using assms(2) by simp
    then have "sb = sbs ! (Suc j + m)"
      using sb m assms(2) by simp
    with lt assms(4) show "\<not> block_needs_poi (block_type sb)" by simp
  qed
  have j: "j < length sbs" using assms(1,2) by simp
  have "cursor_after d plan 0 None (take i sbs) =
          cursor_after d plan 0 None (take (Suc j) sbs)"
    using cursor_after_unchanged[OF mid]
    by (subst split) (simp add: cursor_after_append)
  also have "\<dots> = select_poi_for_block d (int j) plan"
    using j assms(3) by (simp add: take_Suc_conv_app_nth cursor_after_snoc)
  finally show ?thesis .
qed

lemma generate_itinerary_blocks:
  assumes "generate_itinerary fp est now trip_id db = Inr (db', resp)"
    and "macro_plans db trip_id = Some macro_plan"
    and "itineraries db trip_id = Some itinerary_model"
    and "im_poi_plan itinerary_model = Some plan"
    and "n < length (days macro_plan)"
  shows "itinerary_blocks fp est (day_number (days macro_plan ! n)) plan 0 None
           (blocks (days macro_plan ! n)) = Inr (id_blocks (ir_days resp ! n))"
proof -
  have "itinerary_days fp est plan (days macro_plan) = Inr (ir_days resp)"
    using generate_itinerary_days[OF assms(1-4)] .
  then have "itinerary_day fp est plan (days macro_plan ! n) = Inr (ir_days resp ! n)"
    using itinerary_days_nth(2) assms(5) by blast
  then show ?thesis by (rule itinerary_day_blocks)
qed


subsection \<open>The example, evaluated\<close>

lemmas optimizer_defs = itinerary_day_def process_block_def select_poi_for_block_def
  make_itinerary_block_def block_notes_def str_or_def block_needs_poi_def
  BLOCK_TYPES_NEEDING_POIS_def Let_def

lemma paris_itinerary_days:
  "itinerary_days address_of_poi flat_estimate paris_poi_plan (days paris_macro_plan)
     = Inr paris_itinerary"
  by (simp add: optimizer_defs paris_itinerary_def paris_macro_plan_def paris_day_def
        paris_night_def paris_poi_plan_def breakfast_block_def rest_block_def
        dinner_block_def nightlife_block_def address_of_poi_def flat_estimate_def
        cafe_a_def cafe_b_def bistro_c_def)

lemma generate_itinerary_success:
  assumes "trips db trip_id = Some trip_spec"
    and "macro_plans db trip_id = Some macro_plan"
    and "itineraries db trip_id = Some itinerary_model"
    and "im_poi_plan itinerary_model = Some plan"
    and "plan \<noteq> []"
    and "itinerary_days fp est plan (days macro_plan) = Inr idays"
  shows "generate_itinerary fp est now trip_id db =
           Inr (db \<lparr> itineraries := (itineraries db)
                        (trip_id \<mapsto> itinerary_model
                           \<lparr> im_days := Some idays,
                             itinerary_created_at := Some now,
                             im_updated_at := Some now \<rparr>) \<rparr>,
                \<lparr> ir_trip_id = trip_id, ir_days = idays, ir_created_at = now @ ''Z'' \<rparr>)"
  using assms by (simp add: generate_itinerary_def)

lemma paris_lookups:
  "macro_plans paris_db 7 = Some paris_macro_plan"
  "itineraries paris_db 7 = Some paris_row_before"
  "im_poi_plan paris_row_before = Some paris_poi_plan"
  by (simp_all add: paris_db_def paris_row_before_def)

lemma paris_generate:
  "generate_itinerary address_of_poi flat_estimate now 7 paris_db
     = Inr (paris_db_after now, paris_response now)"
proof -
  have "generate_itinerary address_of_poi flat_estimate now 7 paris_db =
           Inr (paris_db \<lparr> itineraries := (itineraries paris_db)
                        (7 \<mapsto> paris_row_before
                           \<lparr> im_days := Some paris_itinerary,
                             itinerary_created_at := Some now,
                             im_updated_at := Some now \<rparr>) \<rparr>,
                \<lparr> ir_trip_id = 7, ir_days = paris_itinerary, ir_created_at = now @ ''Z'' \<rparr>)"
  proof (rule generate_itinerary_success)
    show "trips paris_db 7 = Some paris_trip"
      by (simp add: paris_db_def)
    show "paris_poi_plan \<noteq> []"
      by (simp add: paris_poi_plan_def)
  qed (rule paris_lookups paris_itinerary_days)+
  then show ?thesis
    by (simp add: paris_db_after_def paris_response_def paris_row_def paris_row_before_def)
qed

lemma paris_blocks:
  "length (days paris_macro_plan) = 2"
  "days paris_macro_plan ! 0 = paris_day"
  "days paris_macro_plan ! Suc 0 = paris_night"
  "blocks paris_day = [breakfast_block, rest_block, dinner_block]"
  "blocks paris_night = [nightlife_block]"
  by (simp_all add: paris_macro_plan_def paris_day_def paris_night_def)

subsection \<open>Selection of the venue\<close>

text \<open>
  Claim C4.  In a generated itinerary, the venue of a meal, activity or nightlife block
  at position \<open>i\<close> of day \<open>n\<close> is the first candidate of the first POI plan block whose
  day number is that day's number and whose block index is \<open>i\<close>; it is absent when
  no POI plan block matches or the matching block has no candidates.  So a block whose
  matching POI plan block has candidates receives the candidate at rank 0.
\<close>

theorem generate_itinerary_selects_first_candidate:
  assumes "generate_itinerary fp est now trip_id db = Inr (db', resp)"
    and "macro_plans db trip_id = Some macro_plan"
    and "itineraries db trip_id = Some itinerary_model"
    and "im_poi_plan itinerary_model = Some plan"
    and "n < length (days macro_plan)"
    and "i < length (blocks (days macro_plan ! n))"
    and "block_type (blocks (days macro_plan ! n) ! i) \<in> {MEAL, ACTIVITY, NIGHTLIFE}"
  shows "poi (id_blocks (ir_days resp ! n) ! i) =
           (case find (\<lambda>pb. pb_day_number pb = day_number (days macro_plan ! n)
                              \<and> pb_block_index pb = int i) plan of
              None \<Rightarrow> None
            | Some pb \<Rightarrow> (if candidates pb = [] then None else Some (candidates pb ! 0)))"
proof -
  let ?day = "days macro_plan ! n"
  have "itinerary_days fp est plan (days macro_plan) = Inr (ir_days resp)"
    using generate_itinerary_days[OF assms(1-4)] .
  then have "itinerary_day fp est plan ?day = Inr (ir_days resp ! n)"
    using itinerary_days_nth(2) assms(5) by blast
  from itinerary_day_poi[OF this assms(6)]
  have "poi (id_blocks (ir_days resp ! n) ! i) =
          select_poi_for_block (day_number ?day) (int i) plan"
    using assms(7) by (simp add: block_needs_poi_def BLOCK_TYPES_NEEDING_POIS_def)
  then show ?thesis
    by (simp add: select_poi_for_block_def matching_block_find
             split: option.splits list.splits)
qed

theorem generate_itinerary_selects_first_candidate_witness:
  "generate_itinerary address_of_poi flat_estimate ''t1'' 7 paris_db
     = Inr (paris_db_after ''t1'', paris_response ''t1'')
   \<and> poi (id_blocks (ir_days (paris_response ''t1'') ! 0) ! 0) = Some cafe_a
   \<and> poi (id_blocks (ir_days (paris_response ''t1'') ! 0) ! 2) = Some bistro_c
   \<and> poi (id_blocks (ir_days (paris_response ''t1'') ! 1) ! 0) = None"
proof -
  have g: "generate_itinerary address_of_poi flat_estimate ''t1'' 7 paris_db
             = Inr (paris_db_after ''t1'', paris_response ''t1'')"
    by (rule paris_generate)
  have a: "poi (id_blocks (ir_days (paris_response ''t1'') ! 0) ! 0) = Some cafe_a"
    using generate_itinerary_selects_first_candidate[OF g paris_lookups, where n = 0 and i = 0]
    by (simp add: paris_blocks paris_day_def breakfast_block_def paris_poi_plan_def)
  have b: "poi (id_blocks (ir_days (paris_response ''t1'') ! 0) ! 2) = Some bistro_c"
    using generate_itinerary_selects_first_candidate[OF g paris_lookups, where n = 0 and i = 2]
    by (simp add: paris_blocks paris_day_def dinner_block_def paris_poi_plan_def)
  have c: "poi (id_blocks (ir_days (paris_response ''t1'') ! 1) ! 0) = None"
    using generate_itinerary_selects_first_candidate[OF g paris_lookups, where n = 1 and i = 0]
    by (simp add: paris_blocks paris_night_def nightlife_block_def paris_poi_plan_def)
  from g a b c show ?thesis by simp
qed

subsection \<open>Rest and travel blocks\<close>

text \<open>
  Claim C10.  In a generated itinerary a rest or travel block has no venue, travel time
  0, no travel distance, no path and a note.  Such blocks leave the previous-venue
  cursor alone: when block \<open>i\<close> needs a venue, block \<open>j\<close> is the last block before it
  that needs one, every block between them is a rest or travel block, and one of the
  two has a venue, then the travel fields of block \<open>i\<close> are the estimate from the venue
  of block \<open>j\<close> to the venue of block \<open>i\<close>.
\<close>

theorem rest_and_travel_blocks_keep_cursor:
  assumes "generate_itinerary fp est now trip_id db = Inr (db', resp)"
    and "macro_plans db trip_id = Some macro_plan"
    and "itineraries db trip_id = Some itinerary_model"
    and "im_poi_plan itinerary_model = Some plan"
    and "n < length (days macro_plan)"
    and "i < length (blocks (days macro_plan ! n))"
  shows "(block_type (blocks (days macro_plan ! n) ! i) \<in> {REST, TRAVEL} \<longrightarrow>
            poi (id_blocks (ir_days resp ! n) ! i) = None
          \<and> travel_time_from_prev (id_blocks (ir_days resp ! n) ! i) = 0
          \<and> travel_distance_meters (id_blocks (ir_days resp ! n) ! i) = None
          \<and> travel_polyline (id_blocks (ir_days resp ! n) ! i) = None
          \<and> ib_notes (id_blocks (ir_days resp ! n) ! i) \<noteq> None)
       \<and> (j < i
              \<and> block_type (blocks (days macro_plan ! n) ! j) \<in> {MEAL, ACTIVITY, NIGHTLIFE}
              \<and> (\<forall>k. j < k \<and> k < i \<longrightarrow>
                      block_type (blocks (days macro_plan ! n) ! k) \<in> {REST, TRAVEL})
              \<and> block_type (blocks (days macro_plan ! n) ! i) \<in> {MEAL, ACTIVITY, NIGHTLIFE}
              \<and> (poi (id_blocks (ir_days resp ! n) ! j) \<noteq> None
                  \<or> poi (id_blocks (ir_days resp ! n) ! i) \<noteq> None) \<longrightarrow>
              (\<exists>r. est (fp (poi (id_blocks (ir_days resp ! n) ! j)))
                        (fp (poi (id_blocks (ir_days resp ! n) ! i))) = Inr r
                 \<and> travel_time_from_prev (id_blocks (ir_days resp ! n) ! i) = duration_minutes r
                 \<and> travel_distance_meters (id_blocks (ir_days resp ! n) ! i) = distance_meters r
                 \<and> travel_polyline (id_blocks (ir_days resp ! n) ! i) = polyline r))"
proof -
  let ?sbs = "blocks (days macro_plan ! n)"
  let ?ibs = "id_blocks (ir_days resp ! n)"
  let ?d = "day_number (days macro_plan ! n)"
  have run: "itinerary_blocks fp est ?d plan 0 None ?sbs = Inr ?ibs"
    using generate_itinerary_blocks[OF assms(1-5)] .
  obtain c' where step:
    "process_block fp est ?d plan i (cursor_after ?d plan 0 None (take i ?sbs)) (?sbs ! i)
       = Inr (?ibs ! i, c')"
    using itinerary_blocks_nth[OF run assms(6)] by simp
  have first: "block_type (?sbs ! i) \<in> {REST, TRAVEL} \<longrightarrow>
            poi (?ibs ! i) = None \<and> travel_time_from_prev (?ibs ! i) = 0
          \<and> travel_distance_meters (?ibs ! i) = None \<and> travel_polyline (?ibs ! i) = None
          \<and> ib_notes (?ibs ! i) \<noteq> None"
    using process_block_rest_travel[OF step] by blast
  have second: "\<exists>r. est (fp (poi (?ibs ! j))) (fp (poi (?ibs ! i))) = Inr r
                 \<and> travel_time_from_prev (?ibs ! i) = duration_minutes r
                 \<and> travel_distance_meters (?ibs ! i) = distance_meters r
                 \<and> travel_polyline (?ibs ! i) = polyline r"
    if j: "j < i" and vj: "block_type (?sbs ! j) \<in> {MEAL, ACTIVITY, NIGHTLIFE}"
      and between: "\<forall>k. j < k \<and> k < i \<longrightarrow> block_type (?sbs ! k) \<in> {REST, TRAVEL}"
      and vi: "block_type (?sbs ! i) \<in> {MEAL, ACTIVITY, NIGHTLIFE}"
      and some: "poi (?ibs ! j) \<noteq> None \<or> poi (?ibs ! i) \<noteq> None"
  proof -
    have jlen: "j < length ?sbs" using j assms(6) by simp
    have nj: "block_needs_poi (block_type (?sbs ! j))"
      using vj by (simp only: needs_poi_iff)
    have nb: "\<forall>k. j < k \<and> k < i \<longrightarrow> \<not> block_needs_poi (block_type (?sbs ! k))"
      using between by (simp only: not_needs_poi_iff)
    have ile: "i \<le> length ?sbs" using assms(6) by simp
    have "cursor_after ?d plan 0 None (take i ?sbs) = select_poi_for_block ?d (int j) plan"
      using cursor_after_last_venue[OF j ile nj nb] .
    also have "\<dots> = poi (?ibs ! j)"
      using day_block_poi[OF run jlen] nj by simp
    finally have cur: "cursor_after ?d plan 0 None (take i ?sbs) = poi (?ibs ! j)" .
    have ni: "block_needs_poi (block_type (?sbs ! i))"
      using vi by (simp only: needs_poi_iff)
    have "poi (?ibs ! j) \<noteq> None \<or> poi (?ibs ! i) \<noteq> None"
      using some .
    then have "cursor_after ?d plan 0 None (take i ?sbs) \<noteq> None \<or> poi (?ibs ! i) \<noteq> None"
      by (simp only: cur)
    from process_block_estimate[OF step ni this] show ?thesis
      by (simp only: cur)
  qed
  from first second show ?thesis by blast
qed


theorem rest_and_travel_blocks_keep_cursor_witness:
  "generate_itinerary address_of_poi flat_estimate ''t1'' 7 paris_db
     = Inr (paris_db_after ''t1'', paris_response ''t1'')
   \<and> poi (id_blocks (ir_days (paris_response ''t1'') ! 0) ! 1) = None
   \<and> travel_time_from_prev (id_blocks (ir_days (paris_response ''t1'') ! 0) ! 1) = 0
   \<and> travel_distance_meters (id_blocks (ir_days (paris_response ''t1'') ! 0) ! 1) = None
   \<and> travel_polyline (id_blocks (ir_days (paris_response ''t1'') ! 0) ! 1) = None
   \<and> ib_notes (id_blocks (ir_days (paris_response ''t1'') ! 0) ! 1) \<noteq> None
   \<and> flat_estimate (address_of_poi (Some cafe_a)) (address_of_poi (Some bistro_c))
       = Inr \<lparr> duration_minutes = 10, distance_meters = None, polyline = None \<rparr>
   \<and> travel_time_from_prev (id_blocks (ir_days (paris_response ''t1'') ! 0) ! 2) = 10"
proof -
  let ?B = "id_blocks (ir_days (paris_response ''t1'') ! 0)"
  have g: "generate_itinerary address_of_poi flat_estimate ''t1'' 7 paris_db
             = Inr (paris_db_after ''t1'', paris_response ''t1'')"
    by (rule paris_generate)
  have rest: "poi (?B ! 1) = None \<and> travel_time_from_prev (?B ! 1) = 0
      \<and> travel_distance_meters (?B ! 1) = None \<and> travel_polyline (?B ! 1) = None
      \<and> ib_notes (?B ! 1) \<noteq> None"
    using rest_and_travel_blocks_keep_cursor[OF g paris_lookups, where n = 0 and i = 1]
    by (simp add: paris_blocks rest_block_def)
  have venues: "poi (?B ! 0) = Some cafe_a" "poi (?B ! 2) = Some bistro_c"
    by (simp_all add: paris_response_def paris_itinerary_def)
  have "\<exists>r. flat_estimate (address_of_poi (poi (?B ! 0))) (address_of_poi (poi (?B ! 2))) = Inr r
          \<and> travel_time_from_prev (?B ! 2) = duration_minutes r
          \<and> travel_distance_meters (?B ! 2) = distance_meters r
          \<and> travel_polyline (?B ! 2) = polyline r"
    by (rule rest_and_travel_blocks_keep_cursor[OF g paris_lookups,
               where n = 0 and i = 2 and j = 0, THEN conjunct2, THEN mp])
       (simp_all add: venues paris_blocks breakfast_block_def rest_block_def dinner_block_def)
  then have dinner: "flat_estimate (address_of_poi (Some cafe_a)) (address_of_poi (Some bistro_c))
       = Inr \<lparr> duration_minutes = 10, distance_meters = None, polyline = None \<rparr>
     \<and> travel_time_from_prev (?B ! 2) = 10"
    by (auto simp: venues flat_estimate_def address_of_poi_def cafe_a_def bistro_c_def)
  from g rest dinner show ?thesis by simp
qed

subsection \<open>Travel fields of a venue block\<close>

text \<open>
  Claim C5, as stated, fails: a meal block that is alone in its day has no previous
  venue, and yet the optimizer asks the estimator (with an unset origin) as soon as the
  block itself has a venue, and records the answer.  With an estimator that answers 15
  minutes for an unset origin, the only block of the day has travel time 15.
\<close>

theorem first_venue_travel_time_counterexample:
  "map_sum id (ir_days \<circ> snd)
     (generate_itinerary address_of_poi flat_estimate ''t1'' 7 breakfast_only_db)
     = Inr [breakfast_only_day]
   \<and> previous_venue (id_blocks breakfast_only_day) 0 = None
   \<and> poi (id_blocks breakfast_only_day ! 0) = Some cafe_a
   \<and> travel_time_from_prev (id_blocks breakfast_only_day ! 0) = 15
   \<and> travel_time_from_prev (id_blocks breakfast_only_day ! 0) \<noteq> 0"
  by (simp add: generate_itinerary_def breakfast_only_db_def paris_db_def paris_row_before_def
        paris_poi_plan_def optimizer_defs breakfast_block_def breakfast_only_day_def
        address_of_poi_def flat_estimate_def previous_venue_def)


text \<open>
  Claim C5, amended.  In a generated itinerary, a meal, activity or nightlife block
  with neither a previous venue in its day nor a venue of its own has travel time 0, no
  distance and no path.  When a previous venue or a venue of its own is present, its
  travel fields are the estimator's answer for the journey from the previous venue's
  location (the unset location when there is none) to the location of its own venue.
\<close>

theorem venue_block_travel_fields:
  assumes "generate_itinerary fp est now trip_id db = Inr (db', resp)"
    and "macro_plans db trip_id = Some macro_plan"
    and "itineraries db trip_id = Some itinerary_model"
    and "im_poi_plan itinerary_model = Some plan"
    and "n < length (days macro_plan)"
    and "i < length (blocks (days macro_plan ! n))"
    and "block_type (blocks (days macro_plan ! n) ! i) \<in> {MEAL, ACTIVITY, NIGHTLIFE}"
  shows "(previous_venue (id_blocks (ir_days resp ! n)) i = None
            \<and> poi (id_blocks (ir_days resp ! n) ! i) = None \<longrightarrow>
            travel_time_from_prev (id_blocks (ir_days resp ! n) ! i) = 0
          \<and> travel_distance_meters (id_blocks (ir_days resp ! n) ! i) = None
          \<and> travel_polyline (id_blocks (ir_days resp ! n) ! i) = None)
       \<and> (previous_venue (id_blocks (ir_days resp ! n)) i \<noteq> None
            \<or> poi (id_blocks (ir_days resp ! n) ! i) \<noteq> None \<longrightarrow>
            (\<exists>r. est (fp (previous_venue (id_blocks (ir_days resp ! n)) i))
                      (fp (poi (id_blocks (ir_days resp ! n) ! i))) = Inr r
               \<and> travel_time_from_prev (id_blocks (ir_days resp ! n) ! i) = duration_minutes r
               \<and> travel_distance_meters (id_blocks (ir_days resp ! n) ! i) = distance_meters r
               \<and> travel_polyline (id_blocks (ir_days resp ! n) ! i) = polyline r))"
proof -
  let ?sbs = "blocks (days macro_plan ! n)"
  let ?ibs = "id_blocks (ir_days resp ! n)"
  let ?d = "day_number (days macro_plan ! n)"
  have run: "itinerary_blocks fp est ?d plan 0 None ?sbs = Inr ?ibs"
    using generate_itinerary_blocks[OF assms(1-5)] .
  have cur: "cursor_after ?d plan 0 None (take i ?sbs) = previous_venue ?ibs i"
    using cursor_is_previous_venue[OF run] assms(6) by simp
  obtain c' where step:
    "process_block fp est ?d plan i (previous_venue ?ibs i) (?sbs ! i) = Inr (?ibs ! i, c')"
    using itinerary_blocks_nth[OF run assms(6)] by (simp add: cur)
  have ni: "block_needs_poi (block_type (?sbs ! i))"
    using assms(7) by (simp only: needs_poi_iff)
  show ?thesis
    using process_block_no_venue[OF step ni] process_block_estimate[OF step ni]
    by blast
qed

theorem venue_block_travel_fields_witness:
  "generate_itinerary address_of_poi flat_estimate ''t1'' 7 paris_db
     = Inr (paris_db_after ''t1'', paris_response ''t1'')
   \<and> previous_venue (id_blocks (ir_days (paris_response ''t1'') ! 0)) 0 = None
   \<and> poi (id_blocks (ir_days (paris_response ''t1'') ! 0) ! 0) = Some cafe_a
   \<and> flat_estimate (address_of_poi None) (address_of_poi (Some cafe_a))
       = Inr \<lparr> duration_minutes = 15, distance_meters = None, polyline = None \<rparr>
   \<and> travel_time_from_prev (id_blocks (ir_days (paris_response ''t1'') ! 0) ! 0) = 15
   \<and> previous_venue (id_blocks (ir_days (paris_response ''t1'') ! 1)) 0 = None
   \<and> poi (id_blocks (ir_days (paris_response ''t1'') ! 1) ! 0) = None
   \<and> travel_time_from_prev (id_blocks (ir_days (paris_response ''t1'') ! 1) ! 0) = 0
   \<and> travel_distance_meters (id_blocks (ir_days (paris_response ''t1'') ! 1) ! 0) = None
   \<and> travel_polyline (id_blocks (ir_days (paris_response ''t1'') ! 1) ! 0) = None"
proof -
  let ?A = "id_blocks (ir_days (paris_response ''t1'') ! 0)"
  let ?N = "id_blocks (ir_days (paris_response ''t1'') ! 1)"
  have g: "generate_itinerary address_of_poi flat_estimate ''t1'' 7 paris_db
             = Inr (paris_db_after ''t1'', paris_response ''t1'')"
    by (rule paris_generate)
  have facts: "previous_venue ?A 0 = None" "poi (?A ! 0) = Some cafe_a"
    "previous_venue ?N 0 = None" "poi (?N ! 0) = None"
    by (simp_all add: paris_response_def paris_itinerary_def previous_venue_def)
  have "\<exists>r. flat_estimate (address_of_poi (previous_venue ?A 0)) (address_of_poi (poi (?A ! 0)))
             = Inr r
          \<and> travel_time_from_prev (?A ! 0) = duration_minutes r
          \<and> travel_distance_meters (?A ! 0) = distance_meters r
          \<and> travel_polyline (?A ! 0) = polyline r"
    by (rule venue_block_travel_fields[OF g paris_lookups, where n = 0 and i = 0,
               THEN conjunct2, THEN mp])
       (simp_all add: facts paris_blocks breakfast_block_def)
  then have breakfast:
    "flat_estimate (address_of_poi None) (address_of_poi (Some cafe_a))
       = Inr \<lparr> duration_minutes = 15, distance_meters = None, polyline = None \<rparr>
     \<and> travel_time_from_prev (?A ! 0) = 15"
    by (auto simp: facts flat_estimate_def address_of_poi_def)
  have night: "travel_time_from_prev (?N ! 0) = 0 \<and> travel_distance_meters (?N ! 0) = None
          \<and> travel_polyline (?N ! 0) = None"
    by (rule venue_block_travel_fields[OF g paris_lookups, where n = 1 and i = 0,
               THEN conjunct1, THEN mp])
       (simp_all add: paris_response_def paris_itinerary_def previous_venue_def
          paris_blocks nightlife_block_def)
  from g facts breakfast night show ?thesis by simp
qed

subsection \<open>Regeneration\<close>

lemma generate_itinerary_cases:
  assumes "generate_itinerary fp est now trip_id db = Inr (db', resp)"
  obtains trip_spec macro_plan row plan idays where
    "trips db trip_id = Some trip_spec"
    "macro_plans db trip_id = Some macro_plan"
    "itineraries db trip_id = Some row"
    "im_poi_plan row = Some plan"
    "plan \<noteq> []"
    "itinerary_days fp est plan (days macro_plan) = Inr idays"
    "db' = db \<lparr> itineraries := (itineraries db)
                   (trip_id \<mapsto> row \<lparr> im_days := Some idays,
                                     itinerary_created_at := Some now,
                                     im_updated_at := Some now \<rparr>) \<rparr>"
    "resp = \<lparr> ir_trip_id = trip_id, ir_days = idays, ir_created_at = now @ ''Z'' \<rparr>"
  using assms
  by (auto simp: generate_itinerary_def split: option.splits if_splits sum.splits)


text \<open>
  Claim C6.  The estimator is a function of origin and destination, as the heuristic
  estimator is.  After a successful generation, generating again (at any later time
  \<open>now'\<close>) succeeds and yields the same days, hence the same venues and travel
  figures; the macro plan and the POI plan are left as they were, and the stored
  itinerary is the generated one.  Generation replaces in full: whatever itinerary was
  stored in the row beforehand, the database and the response after generation are the
  same.
\<close>

theorem generate_itinerary_idempotent:
  assumes "generate_itinerary fp est now trip_id db = Inr (db1, resp1)"
  shows "(\<exists>db2 resp2.
            generate_itinerary fp est now' trip_id db1 = Inr (db2, resp2)
          \<and> ir_days resp2 = ir_days resp1
          \<and> map_option im_days (itineraries db1 trip_id) = Some (Some (ir_days resp1))
          \<and> map_option im_days (itineraries db2 trip_id) = Some (Some (ir_days resp1))
          \<and> macro_plans db2 = macro_plans db
          \<and> map_option im_poi_plan (itineraries db2 trip_id)
              = map_option im_poi_plan (itineraries db trip_id))
       \<and> (\<forall>row old.
            itineraries db trip_id = Some row \<longrightarrow>
            generate_itinerary fp est now trip_id
              (db \<lparr> itineraries := (itineraries db)(trip_id \<mapsto> row \<lparr> im_days := old \<rparr>) \<rparr>)
              = Inr (db1, resp1))"
proof -
  from assms obtain trip_spec macro_plan row plan idays where
    t: "trips db trip_id = Some trip_spec" and
    m: "macro_plans db trip_id = Some macro_plan" and
    r: "itineraries db trip_id = Some row" and
    p: "im_poi_plan row = Some plan" and
    ne: "plan \<noteq> []" and
    run: "itinerary_days fp est plan (days macro_plan) = Inr idays" and
    db1: "db1 = db \<lparr> itineraries := (itineraries db)
                   (trip_id \<mapsto> row \<lparr> im_days := Some idays,
                                     itinerary_created_at := Some now,
                                     im_updated_at := Some now \<rparr>) \<rparr>" and
    resp1: "resp1 = \<lparr> ir_trip_id = trip_id, ir_days = idays, ir_created_at = now @ ''Z'' \<rparr>"
    by (rule generate_itinerary_cases)
  let ?row1 = "row \<lparr> im_days := Some idays, itinerary_created_at := Some now,
                     im_updated_at := Some now \<rparr>"
  have again: "generate_itinerary fp est now' trip_id db1 =
      Inr (db1 \<lparr> itineraries := (itineraries db1)
                   (trip_id \<mapsto> ?row1 \<lparr> im_days := Some idays,
                                       itinerary_created_at := Some now',
                                       im_updated_at := Some now' \<rparr>) \<rparr>,
           \<lparr> ir_trip_id = trip_id, ir_days = idays, ir_created_at = now' @ ''Z'' \<rparr>)"
  proof (rule generate_itinerary_success)
    show "trips db1 trip_id = Some trip_spec" using t by (simp add: db1)
    show "macro_plans db1 trip_id = Some macro_plan" using m by (simp add: db1)
    show "itineraries db1 trip_id = Some ?row1" by (simp add: db1)
    show "im_poi_plan ?row1 = Some plan" using p by simp
    show "plan \<noteq> []" by (rule ne)
    show "itinerary_days fp est plan (days macro_plan) = Inr idays" by (rule run)
  qed
  have first: "\<exists>db2 resp2.
            generate_itinerary fp est now' trip_id db1 = Inr (db2, resp2)
          \<and> ir_days resp2 = ir_days resp1
          \<and> map_option im_days (itineraries db1 trip_id) = Some (Some (ir_days resp1))
          \<and> map_option im_days (itineraries db2 trip_id) = Some (Some (ir_days resp1))
          \<and> macro_plans db2 = macro_plans db
          \<and> map_option im_poi_plan (itineraries db2 trip_id)
              = map_option im_poi_plan (itineraries db trip_id)"
    using again r p by (simp add: db1 resp1)
  have second: "generate_itinerary fp est now trip_id
              (db \<lparr> itineraries := (itineraries db)(trip_id \<mapsto> row' \<lparr> im_days := old \<rparr>) \<rparr>)
              = Inr (db1, resp1)"
    if "itineraries db trip_id = Some row'" for row' old
  proof -
    from that r have row': "row' = row" by simp
    let ?db0 = "db \<lparr> itineraries := (itineraries db)(trip_id \<mapsto> row \<lparr> im_days := old \<rparr>) \<rparr>"
    have "generate_itinerary fp est now trip_id ?db0 =
      Inr (?db0 \<lparr> itineraries := (itineraries ?db0)
                   (trip_id \<mapsto> row \<lparr> im_days := old \<rparr> \<lparr> im_days := Some idays,
                                       itinerary_created_at := Some now,
                                       im_updated_at := Some now \<rparr>) \<rparr>,
           \<lparr> ir_trip_id = trip_id, ir_days = idays, ir_created_at = now @ ''Z'' \<rparr>)"
    proof (rule generate_itinerary_success)
      show "trips ?db0 trip_id = Some trip_spec" using t by simp
      show "macro_plans ?db0 trip_id = Some macro_plan" using m by simp
      show "itineraries ?db0 trip_id = Some (row \<lparr> im_days := old \<rparr>)" by simp
      show "im_poi_plan (row \<lparr> im_days := old \<rparr>) = Some plan" using p by simp
      show "plan \<noteq> []" by (rule ne)
      show "itinerary_days fp est plan (days macro_plan) = Inr idays" by (rule run)
    qed
    then show ?thesis
      by (simp add: row' db1 resp1)
  qed
  from first second show ?thesis by blast
qed

theorem generate_itinerary_idempotent_witness:
  "generate_itinerary address_of_poi flat_estimate ''t1'' 7 paris_db
     = Inr (paris_db_after ''t1'', paris_response ''t1'')
   \<and> (\<exists>db2 resp2.
        generate_itinerary address_of_poi flat_estimate ''t2'' 7 (paris_db_after ''t1'')
          = Inr (db2, resp2)
        \<and> ir_days resp2 = paris_itinerary
        \<and> map_option im_days (itineraries db2 7) = Some (Some paris_itinerary))
   \<and> generate_itinerary address_of_poi flat_estimate ''t1'' 7
        (paris_db \<lparr> itineraries := (itineraries paris_db)
                      (7 \<mapsto> paris_row_before \<lparr> im_days := Some [] \<rparr>) \<rparr>)
       = Inr (paris_db_after ''t1'', paris_response ''t1'')"
proof -
  have g: "generate_itinerary address_of_poi flat_estimate ''t1'' 7 paris_db
             = Inr (paris_db_after ''t1'', paris_response ''t1'')"
    by (rule paris_generate)
  note inst = generate_itinerary_idempotent[OF g, where now' = "''t2''"]
  have a: "\<exists>db2 resp2.
        generate_itinerary address_of_poi flat_estimate ''t2'' 7 (paris_db_after ''t1'')
          = Inr (db2, resp2)
        \<and> ir_days resp2 = paris_itinerary
        \<and> map_option im_days (itineraries db2 7) = Some (Some paris_itinerary)"
    using inst[THEN conjunct1] by (auto simp: paris_response_def)
  have b: "generate_itinerary address_of_poi flat_estimate ''t1'' 7
        (paris_db \<lparr> itineraries := (itineraries paris_db)
                      (7 \<mapsto> paris_row_before \<lparr> im_days := Some [] \<rparr>) \<rparr>)
       = Inr (paris_db_after ''t1'', paris_response ''t1'')"
    using inst[THEN conjunct2] paris_lookups(2) by blast
  from g a b show ?thesis by blast
qed

section \<open>Properties of the POI planner\<close>

lemma recording_apply:
  "recording prov query (calls, s) =
     (case prov query s of (answer, s') \<Rightarrow> (answer, (calls @ [(query, answer)], s')))"
  by (simp add: recording_def)

lemma poi_blocks_of_day_recorded:
  assumes "poi_blocks_of_day (recording prov) trip_spec d i bs (calls0, s) = Inr (pbs, (calls, s'))"
  shows "map (\<lambda>pb. (pb_day_number pb, pb_block_index pb, pb_block_type pb)) pbs =
           map (\<lambda>(j, block). (d, int j, block_type block))
             (filter (\<lambda>(j, block). block_type block \<in> {MEAL, ACTIVITY, NIGHTLIFE})
                (enumerate i bs))
       \<and> calls = calls0 @
           zip (map (\<lambda>(j, block).
                  \<lparr> q_city = city trip_spec,
                    q_desired_categories = desired_categories block,
                    q_budget = budget trip_spec,
                    q_limit = 3,
                    q_center_location = hotel_location trip_spec \<rparr>)
                 (filter (\<lambda>(j, block). block_type block \<in> {MEAL, ACTIVITY, NIGHTLIFE})
                    (enumerate i bs)))
               (map (\<lambda>pb. Inr (candidates pb)) pbs)"
  using assms
proof (induction bs arbitrary: i s pbs calls0)
  case Nil
  then show ?case by simp
next
  case (Cons b bs)
  show ?case
  proof (cases "block_needs_pois (block_type b)")
    case False
    then have "poi_blocks_of_day (recording prov) trip_spec d (Suc i) bs (calls0, s)
                 = Inr (pbs, (calls, s'))"
      using Cons.prems by simp
    from Cons.IH[OF this] False show ?thesis
      by (simp add: block_needs_pois_def)
  next
    case True
    let ?q = "\<lparr> q_city = city trip_spec,
                    q_desired_categories = desired_categories b,
                    q_budget = budget trip_spec,
                    q_limit = CANDIDATES_PER_BLOCK,
                    q_center_location = hotel_location trip_spec \<rparr>"
    from Cons.prems True obtain cands s1 pbs' where
      call: "prov ?q s = (Inr cands, s1)" and
      rest: "poi_blocks_of_day (recording prov) trip_spec d (Suc i) bs
               (calls0 @ [(?q, Inr cands)], s1) = Inr (pbs', (calls, s'))" and
      pbs: "pbs = \<lparr> pb_day_number = d, pb_block_index = int i,
                     pb_block_theme = str_or (theme b) [],
                     pb_block_type = block_type b, candidates = cands \<rparr> # pbs'"
      by (auto simp: recording_apply split: prod.splits sum.splits)
    from Cons.IH[OF rest] True show ?thesis
      by (simp add: pbs block_needs_pois_def CANDIDATES_PER_BLOCK_def)
  qed
qed

lemma poi_blocks_of_day_count:
  assumes "poi_blocks_of_day prov trip_spec d i bs s = Inr (pbs, s')"
  shows "length pbs =
           length (filter (\<lambda>(j, block). block_type block \<in> {MEAL, ACTIVITY, NIGHTLIFE})
                     (enumerate i bs))"
  using assms
proof (induction bs arbitrary: i s pbs)
  case Nil
  then show ?case by simp
next
  case (Cons b bs)
  then show ?case
    by (auto simp: block_needs_pois_def split: if_splits prod.splits sum.splits)
qed

lemma poi_blocks_of_days_recorded:
  assumes "poi_blocks_of_days (recording prov) trip_spec ds (calls0, s) = Inr (pbs, (calls, s'))"
  shows "map (\<lambda>pb. (pb_day_number pb, pb_block_index pb, pb_block_type pb)) pbs =
           map (\<lambda>(d, j, block). (d, int j, block_type block))
             (concat (map venue_slots_of_day ds))
       \<and> calls = calls0 @
           zip (map (\<lambda>(d, j, block).
                  \<lparr> q_city = city trip_spec,
                    q_desired_categories = desired_categories block,
                    q_budget = budget trip_spec,
                    q_limit = 3,
                    q_center_location = hotel_location trip_spec \<rparr>)
                 (concat (map venue_slots_of_day ds)))
               (map (\<lambda>pb. Inr (candidates pb)) pbs)"
  using assms
proof (induction ds arbitrary: s pbs calls0)
  case Nil
  then show ?case by simp
next
  case (Cons day ds)
  from Cons.prems obtain pbs1 calls1 s1 pbs2 where
    d: "poi_blocks_of_day (recording prov) trip_spec (day_number day) 0 (blocks day) (calls0, s)
          = Inr (pbs1, (calls1, s1))" and
    r: "poi_blocks_of_days (recording prov) trip_spec ds (calls1, s1) = Inr (pbs2, (calls, s'))" and
    pbs: "pbs = pbs1 @ pbs2"
    by (auto split: sum.splits prod.splits)
  have len: "length pbs1 = length (venue_slots_of_day day)"
    using poi_blocks_of_day_count[OF d] by (simp add: venue_slots_of_day_def)
  from poi_blocks_of_day_recorded[OF d] Cons.IH[OF r] len show ?case
    by (simp add: pbs venue_slots_of_day_def comp_def case_prod_unfold)
qed

lemma poi_blocks_of_days_count:
  assumes "poi_blocks_of_days (recording prov) trip_spec ds (calls0, s) = Inr (pbs, (calls, s'))"
  shows "length pbs = length (concat (map venue_slots_of_day ds))"
proof -
  have "length (map (\<lambda>pb. (pb_day_number pb, pb_block_index pb, pb_block_type pb)) pbs) =
        length (map (\<lambda>(d, j, block). (d, int j, block_type block))
             (concat (map venue_slots_of_day ds)))"
    using poi_blocks_of_days_recorded[OF assms] by simp
  then show ?thesis by (simp del: length_concat)
qed


text \<open>
  Claim C7.  The provider is observed through its record of calls, which starts empty.
  A successful POI-plan generation returns one POI plan block for every meal, activity
  or nightlife block of the macro plan, in the order of the skeleton, with that block's
  day number, index and type; no block of the plan is a rest or travel block.  The
  provider receives one query per such block, in the same order, each with the trip's
  city, the block's desired categories, the trip's budget, the limit 3 and the trip's
  hotel location as center, and the candidates of each block are the provider's answer
  to its query.
\<close>

theorem generate_poi_plan_blocks_and_queries:
  assumes "generate_poi_plan (recording poi_provider) now trip_id db ([], s)
             = Inr (db', resp, (calls, s'))"
    and "trips db trip_id = Some trip_spec"
    and "macro_plans db trip_id = Some macro_plan"
  shows "map (\<lambda>pb. (pb_day_number pb, pb_block_index pb, pb_block_type pb)) (pr_blocks resp) =
           map (\<lambda>(d, i, block). (d, int i, block_type block)) (venue_slots macro_plan)
       \<and> map fst calls =
           map (\<lambda>(d, i, block).
                  \<lparr> q_city = city trip_spec,
                    q_desired_categories = desired_categories block,
                    q_budget = budget trip_spec,
                    q_limit = 3,
                    q_center_location = hotel_location trip_spec \<rparr>)
             (venue_slots macro_plan)
       \<and> map snd calls = map (\<lambda>pb. Inr (candidates pb)) (pr_blocks resp)
       \<and> (\<forall>pb \<in> set (pr_blocks resp). pb_block_type pb \<notin> {REST, TRAVEL})"
proof -
  from assms obtain pbs where
    run: "poi_blocks_of_days (recording poi_provider) trip_spec (days macro_plan) ([], s)
            = Inr (pbs, (calls, s'))" and
    resp: "pr_blocks resp = pbs"
    by (auto simp: generate_poi_plan_def Let_def split: sum.splits prod.splits)
  note slots = poi_blocks_of_days_recorded[OF run]
  have len: "length pbs = length (venue_slots macro_plan)"
    using poi_blocks_of_days_count[OF run] by (simp add: venue_slots_def)
  have keys: "map (\<lambda>pb. (pb_day_number pb, pb_block_index pb, pb_block_type pb)) pbs =
           map (\<lambda>(d, i, block). (d, int i, block_type block)) (venue_slots macro_plan)"
    using slots by (simp add: venue_slots_def)
  have calls: "calls = zip (map (\<lambda>(d, i, block).
                  \<lparr> q_city = city trip_spec,
                    q_desired_categories = desired_categories block,
                    q_budget = budget trip_spec,
                    q_limit = 3,
                    q_center_location = hotel_location trip_spec \<rparr>)
                 (venue_slots macro_plan))
               (map (\<lambda>pb. Inr (candidates pb)) pbs)"
    using slots by (simp add: venue_slots_def)
  have queries: "map fst calls = map (\<lambda>(d, i, block).
                  \<lparr> q_city = city trip_spec,
                    q_desired_categories = desired_categories block,
                    q_budget = budget trip_spec,
                    q_limit = 3,
                    q_center_location = hotel_location trip_spec \<rparr>)
                 (venue_slots macro_plan)"
    using len by (simp add: calls)
  have answers: "map snd calls = map (\<lambda>pb. Inr (candidates pb)) pbs"
    using len by (simp add: calls)
  have types: "map pb_block_type pbs =
                 map (\<lambda>(d, i, block). block_type block) (venue_slots macro_plan)"
  proof -
    have "map pb_block_type pbs =
            map (\<lambda>t. snd (snd t))
              (map (\<lambda>pb. (pb_day_number pb, pb_block_index pb, pb_block_type pb)) pbs)"
      by (simp add: comp_def)
    also have "\<dots> = map (\<lambda>(d, i, block). block_type block) (venue_slots macro_plan)"
      by (simp only: keys) (simp add: comp_def case_prod_unfold)
    finally show ?thesis .
  qed
  have "\<forall>t \<in> set (venue_slots macro_plan). block_type (snd (snd t)) \<in> {MEAL, ACTIVITY, NIGHTLIFE}"
    by (auto simp: venue_slots_def venue_slots_of_day_def)
  then have "\<forall>ty \<in> set (map pb_block_type pbs). ty \<in> {MEAL, ACTIVITY, NIGHTLIFE}"
    unfolding types by (auto simp: case_prod_unfold)
  then have no_rest: "\<forall>pb \<in> set pbs. pb_block_type pb \<notin> {REST, TRAVEL}"
    by auto
  from keys queries answers no_rest show ?thesis
    by (simp add: resp)
qed

lemma paris_venue_slots:
  "venue_slots paris_macro_plan =
     [(1, 0, breakfast_block), (1, 2, dinner_block), (2, 0, nightlife_block)]"
  by (simp add: venue_slots_def venue_slots_of_day_def paris_macro_plan_def paris_day_def
        paris_night_def breakfast_block_def rest_block_def dinner_block_def
        nightlife_block_def)

lemma paris_poi_blocks_of_days:
  "poi_blocks_of_days (recording counting_provider) paris_trip (days paris_macro_plan) ([], 0) =
     Inr (paris_planned_blocks,
          ([(paris_query [''cafe''], Inr [cafe_a, cafe_b]),
            (paris_query [''restaurant''], Inr [bistro_c]),
            (paris_query [''bar''], Inr [])], 3))"
  by (simp add: paris_macro_plan_def paris_day_def paris_night_def breakfast_block_def
        rest_block_def dinner_block_def nightlife_block_def block_needs_pois_def
        recording_apply counting_provider_def paris_trip_def paris_planned_blocks_def
        paris_poi_plan_def paris_query_def CANDIDATES_PER_BLOCK_def str_or_def)

theorem generate_poi_plan_blocks_and_queries_witness:
  "map_sum id snd (generate_poi_plan (recording counting_provider) ''t2'' 7 paris_db ([], 0)) =
     Inr (\<lparr> pr_trip_id = 7, pr_blocks = paris_planned_blocks, pr_created_at = ''t2Z'' \<rparr>,
          ([(paris_query [''cafe''], Inr [cafe_a, cafe_b]),
            (paris_query [''restaurant''], Inr [bistro_c]),
            (paris_query [''bar''], Inr [])], 3))
   \<and> map (\<lambda>pb. (pb_day_number pb, pb_block_index pb, pb_block_type pb)) paris_planned_blocks =
       [(1, 0, MEAL), (1, 2, MEAL), (2, 0, NIGHTLIFE)]
   \<and> venue_slots paris_macro_plan =
       [(1, 0, breakfast_block), (1, 2, dinner_block), (2, 0, nightlife_block)]
   \<and> [paris_query [''cafe''], paris_query [''restaurant''], paris_query [''bar'']] =
       map (\<lambda>(d, i, block).
              \<lparr> q_city = city paris_trip, q_desired_categories = desired_categories block,
                q_budget = budget paris_trip, q_limit = 3,
                q_center_location = hotel_location paris_trip \<rparr>)
         (venue_slots paris_macro_plan)
   \<and> map candidates paris_planned_blocks = [[cafe_a, cafe_b], [bistro_c], []]"
proof -
  let ?resp = "\<lparr> pr_trip_id = 7, pr_blocks = paris_planned_blocks, pr_created_at = ''t2Z'' \<rparr>"
  let ?calls = "[(paris_query [''cafe''], Inr [cafe_a, cafe_b]),
            (paris_query [''restaurant''], Inr [bistro_c]),
            (paris_query [''bar''], Inr [])] :: (POIQuery \<times> (error + POICandidate list)) list"
  have t: "trips paris_db 7 = Some paris_trip"
    by (simp add: paris_db_def)
  obtain db' where g:
    "generate_poi_plan (recording counting_provider) ''t2'' 7 paris_db ([], 0)
       = Inr (db', ?resp, (?calls, 3))"
    by (simp add: generate_poi_plan_def t paris_lookups paris_poi_blocks_of_days)
  note inst = generate_poi_plan_blocks_and_queries[OF g t paris_lookups(1)]
  have a: "map (\<lambda>pb. (pb_day_number pb, pb_block_index pb, pb_block_type pb)) paris_planned_blocks =
       [(1, 0, MEAL), (1, 2, MEAL), (2, 0, NIGHTLIFE)]"
    using inst[THEN conjunct1]
    by (simp add: paris_venue_slots breakfast_block_def dinner_block_def nightlife_block_def)
  have b: "[paris_query [''cafe''], paris_query [''restaurant''], paris_query [''bar'']] =
         map (\<lambda>(d, i, block).
              \<lparr> q_city = city paris_trip, q_desired_categories = desired_categories block,
                q_budget = budget paris_trip, q_limit = 3,
                q_center_location = hotel_location paris_trip \<rparr>)
         (venue_slots paris_macro_plan)"
    using inst[THEN conjunct2, THEN conjunct1] by simp
  have "map (\<lambda>pb. Inr (candidates pb) :: error + POICandidate list) paris_planned_blocks
          = [Inr [cafe_a, cafe_b], Inr [bistro_c], Inr []]"
    using inst[THEN conjunct2, THEN conjunct2, THEN conjunct1] by simp
  then have c: "map candidates paris_planned_blocks = [[cafe_a, cafe_b], [bistro_c], []]"
    by (simp add: paris_planned_blocks_def paris_poi_plan_def)
  from g a b c paris_venue_slots show ?thesis by simp
qed

section \<open>Properties of the composite candidate selector\<close>

subsection \<open>Deduplication\<close>

lemma dedup_by_id_filter:
  "dedup_by_id seen ps =
     map snd (filter (\<lambda>(i, p). poi_id p \<notin> set seen \<union> poi_id ` set (take i ps))
                (enumerate 0 ps))"
proof (induction ps arbitrary: seen)
  case Nil
  then show ?case by simp
next
  case (Cons p ps)
  have shift: "enumerate (Suc 0) ps = map (\<lambda>(i, x). (Suc i, x)) (enumerate 0 ps)"
    by (simp add: enumerate_Suc_eq case_prod_unfold apfst_def map_prod_def)
  show ?case
  proof (cases "poi_id p \<in> set seen")
    case True
    then have same: "filter (\<lambda>x. poi_id (snd x) \<notin> set seen \<and> poi_id (snd x) \<noteq> poi_id p \<and>
                         poi_id (snd x) \<notin> poi_id ` set (take (fst x) ps)) (enumerate 0 ps) =
                 filter (\<lambda>x. poi_id (snd x) \<notin> set seen \<and>
                         poi_id (snd x) \<notin> poi_id ` set (take (fst x) ps)) (enumerate 0 ps)"
      by (intro filter_cong) auto
    from True show ?thesis
      by (simp add: Cons.IH shift filter_map comp_def case_prod_unfold same)
  next
    case False
    then show ?thesis
      by (simp add: Cons.IH shift filter_map comp_def case_prod_unfold conj_ac)
  qed
qed

lemma dedup_by_id_first_occurrences: "dedup_by_id [] ps = first_occurrences ps"
  by (simp add: dedup_by_id_filter first_occurrences_def)

lemma dedup_by_id_append:
  "dedup_by_id seen (xs @ ys) =
     dedup_by_id seen xs @ dedup_by_id (rev (map poi_id (dedup_by_id seen xs)) @ seen) ys"
  by (induction xs arbitrary: seen) auto

lemma dedup_by_id_not_seen: "\<forall>q \<in> set (dedup_by_id seen ps). poi_id q \<notin> set seen"
proof (induction ps arbitrary: seen)
  case Nil
  then show ?case by simp
next
  case (Cons p ps)
  have "\<forall>q \<in> set (dedup_by_id (poi_id p # seen) ps). poi_id q \<notin> set (poi_id p # seen)"
    by (rule Cons.IH)
  then show ?case using Cons.IH[of seen] by auto
qed

lemma dedup_by_id_distinct: "distinct (map poi_id (dedup_by_id seen ps))"
proof (induction ps arbitrary: seen)
  case Nil
  then show ?case by simp
next
  case (Cons p ps)
  then show ?case
    using dedup_by_id_not_seen[of "poi_id p # seen" ps] by auto
qed

lemma dedup_by_id_distinct_id:
  "distinct (map poi_id ps) \<Longrightarrow> set (map poi_id ps) \<inter> set seen = {} \<Longrightarrow> dedup_by_id seen ps = ps"
  by (induction ps arbitrary: seen) auto


subsection \<open>Enough local results\<close>

text \<open>
  Claim C1.  When the local source answers with at least \<open>limit\<close> candidates, the
  composite selector returns exactly that list, makes no call of the external source,
  and leaves the state as the local source left it.
\<close>

theorem composite_returns_local_when_enough:
  assumes "db_provider query s = (Inr db_results, s1)"
    and "length db_results \<ge> q_limit query"
  shows "composite_search_pois db_provider external_provider query s = (Inr db_results, 0, s1)"
  using assms by (simp add: composite_search_pois_def)

theorem composite_returns_local_when_enough_witness:
  "db_source [cafe_a] (cafe_query 1) [] = (Inr [cafe_a], [''db''])
   \<and> length [cafe_a] \<ge> q_limit (cafe_query 1)
   \<and> composite_search_pois (db_source [cafe_a]) (external_source [cafe_b]) (cafe_query 1) []
       = (Inr [cafe_a], 0, [''db''])"
proof -
  have l: "db_source [cafe_a] (cafe_query 1) [] = (Inr [cafe_a], [''db''])"
    by (simp add: db_source_def)
  have n: "length [cafe_a] \<ge> q_limit (cafe_query 1)"
    by (simp add: cafe_query_def)
  from composite_returns_local_when_enough[where db_provider = "db_source [cafe_a]"
         and query = "cafe_query 1" and s = "[]"
         and external_provider = "external_source [cafe_b]", OF l n] l n
  show ?thesis by simp
qed

subsection \<open>Failure of the external source\<close>

text \<open>
  Claim C2.  The local source is a store keyed by identity, so its results have
  pairwise distinct identities.  When it answers with fewer than \<open>limit\<close> candidates
  and the external source raises, the search raises nothing and returns exactly the
  local results, cut to \<open>limit\<close>.
\<close>

theorem composite_external_failure:
  assumes "db_provider query s = (Inr db_results, s1)"
    and "distinct (map poi_id db_results)"
    and "length db_results < q_limit query"
    and "external_provider query s1 = (Inl e, s2)"
  shows "composite_search_pois db_provider external_provider query s
           = (Inr (take (q_limit query) db_results), 1, s2)"
proof -
  have "dedup_by_id [] db_results = db_results"
    using dedup_by_id_distinct_id[OF assms(2), of "[]"] by simp
  with assms show ?thesis
    by (simp add: composite_search_pois_def)
qed

theorem composite_external_failure_witness:
  "db_source [cafe_a, cafe_b] (cafe_query 5) [] = (Inr [cafe_a, cafe_b], [''db''])
   \<and> distinct (map poi_id [cafe_a, cafe_b])
   \<and> length [cafe_a, cafe_b] < q_limit (cafe_query 5)
   \<and> failing_external (cafe_query 5) [''db'']
       = (Inl (ProviderError ''API error''), [''db'', ''external''])
   \<and> composite_search_pois (db_source [cafe_a, cafe_b]) failing_external (cafe_query 5) []
       = (Inr [cafe_a, cafe_b], 1, [''db'', ''external''])"
proof -
  have l: "db_source [cafe_a, cafe_b] (cafe_query 5) [] = (Inr [cafe_a, cafe_b], [''db''])"
    by (simp add: db_source_def)
  have d: "distinct (map poi_id [cafe_a, cafe_b])"
    by (simp add: cafe_a_def cafe_b_def)
  have n: "length [cafe_a, cafe_b] < q_limit (cafe_query 5)"
    by (simp add: cafe_query_def)
  have x: "failing_external (cafe_query 5) [''db'']
       = (Inl (ProviderError ''API error''), [''db'', ''external''])"
    by (simp add: failing_external_def)
  have "composite_search_pois (db_source [cafe_a, cafe_b]) failing_external (cafe_query 5) []
       = (Inr (take (q_limit (cafe_query 5)) [cafe_a, cafe_b]), 1, [''db'', ''external''])"
    using composite_external_failure[where db_provider = "db_source [cafe_a, cafe_b]"
            and query = "cafe_query 5" and s = "[]"
            and external_provider = failing_external, OF l d n x] .
  with l d n x show ?thesis
    by (simp add: cafe_query_def)
qed


subsection \<open>The merge\<close>

text \<open>
  Claim C3.  The local source honours the limit it is queried with and returns
  pairwise distinct identities.  Then for every search the result is the local results
  followed by the external results (what the external source answers to the query;
  none if it raises), reduced to the first occurrence of every identity and cut to
  \<open>limit\<close>; the external source is called exactly when the local results are fewer
  than \<open>limit\<close>.  The result has at most \<open>limit\<close> elements with pairwise distinct
  identities, every local candidate appears in it, and an external candidate whose
  identity occurs among the local results does not.
\<close>

theorem composite_merge:
  assumes "db_provider query s = (Inr db_results, s1)"
    and "length db_results \<le> q_limit query"
    and "distinct (map poi_id db_results)"
    and "external_provider query s1 = (answer, s2)"
    and "external_results = (case answer of Inl e \<Rightarrow> [] | Inr ps \<Rightarrow> ps)"
    and "result = take (q_limit query) (first_occurrences (db_results @ external_results))"
  shows "composite_search_pois db_provider external_provider query s
           = (Inr result,
              if length db_results < q_limit query then 1 else 0,
              if length db_results < q_limit query then s2 else s1)
       \<and> length result \<le> q_limit query
       \<and> distinct (map poi_id result)
       \<and> (\<forall>l \<in> set db_results. l \<in> set result)
       \<and> (\<forall>x \<in> set external_results.
            poi_id x \<in> poi_id ` set db_results \<and> x \<notin> set db_results \<longrightarrow> x \<notin> set result)"
proof -
  let ?n = "q_limit query"
  let ?E = "dedup_by_id (rev (map poi_id db_results) @ []) external_results"
  have keep: "dedup_by_id [] db_results = db_results"
    using dedup_by_id_distinct_id[OF assms(3), of "[]"] by simp
  have merged: "first_occurrences (db_results @ external_results) = db_results @ ?E"
    using dedup_by_id_append[of "[]" db_results external_results]
    by (simp add: dedup_by_id_first_occurrences[symmetric] keep)
  have res: "result = db_results @ take (?n - length db_results) ?E"
    using assms(2) by (simp add: assms(6) merged)
  have run: "composite_search_pois db_provider external_provider query s
           = (Inr result,
              if length db_results < q_limit query then 1 else 0,
              if length db_results < q_limit query then s2 else s1)"
  proof (cases "length db_results < ?n")
    case True
    then show ?thesis
      using assms(1,4,5,6)
      by (simp add: composite_search_pois_def dedup_by_id_first_occurrences)
  next
    case False
    with assms(2) have "length db_results = ?n" by simp
    then have "result = db_results" by (simp add: res)
    with False assms(1) show ?thesis
      by (simp add: composite_search_pois_def)
  qed
  have len: "length result \<le> ?n"
    by (simp add: assms(6))
  have dist: "distinct (map poi_id result)"
    using dedup_by_id_distinct[of "[]" "db_results @ external_results"]
    by (simp add: assms(6) dedup_by_id_first_occurrences[symmetric] take_map[symmetric]
          distinct_take del: map_append)
  have local: "\<forall>l \<in> set db_results. l \<in> set result"
    by (simp add: res)
  have ext: "x \<notin> set result"
    if "poi_id x \<in> poi_id ` set db_results" and "x \<notin> set db_results" for x
  proof
    assume "x \<in> set result"
    with that(2) have "x \<in> set (take (?n - length db_results) ?E)"
      by (auto simp: res)
    then have "x \<in> set ?E" by (rule in_set_takeD)
    then have "poi_id x \<notin> set (rev (map poi_id db_results) @ [])"
      using dedup_by_id_not_seen by blast
    then show False using that(1) by simp
  qed
  from run len dist local ext show ?thesis by blast
qed

theorem composite_merge_witness:
  "db_source [cafe_a] (cafe_query 5) [] = (Inr [cafe_a], [''db''])
   \<and> length [cafe_a] \<le> q_limit (cafe_query 5)
   \<and> distinct (map poi_id [cafe_a])
   \<and> external_source [cafe_a_again, cafe_b] (cafe_query 5) [''db'']
       = (Inr [cafe_a_again, cafe_b], [''db'', ''external''])
   \<and> take (q_limit (cafe_query 5)) (first_occurrences ([cafe_a] @ [cafe_a_again, cafe_b]))
       = [cafe_a, cafe_b]
   \<and> composite_search_pois (db_source [cafe_a]) (external_source [cafe_a_again, cafe_b])
         (cafe_query 5) []
       = (Inr [cafe_a, cafe_b], 1, [''db'', ''external''])
   \<and> composite_search_pois (db_source [cafe_a, cafe_b]) (external_source [bistro_c])
         (cafe_query 2) []
       = (Inr [cafe_a, cafe_b], 0, [''db''])"
proof -
  have l: "db_source [cafe_a] (cafe_query 5) [] = (Inr [cafe_a], [''db''])"
    by (simp add: db_source_def)
  have n: "length [cafe_a] \<le> q_limit (cafe_query 5)"
    by (simp add: cafe_query_def)
  have d: "distinct (map poi_id [cafe_a])"
    by simp
  have x: "external_source [cafe_a_again, cafe_b] (cafe_query 5) [''db'']
       = (Inr [cafe_a_again, cafe_b], [''db'', ''external''])"
    by (simp add: external_source_def)
  have e: "[cafe_a_again, cafe_b] =
       (case Inr [cafe_a_again, cafe_b] :: error + POICandidate list of
          Inl e \<Rightarrow> [] | Inr ps \<Rightarrow> ps)"
    by simp
  have r: "[cafe_a, cafe_b] =
       take (q_limit (cafe_query 5)) (first_occurrences ([cafe_a] @ [cafe_a_again, cafe_b]))"
    by (simp add: first_occurrences_def enumerate_eq_zip cafe_query_def
          cafe_a_again_def cafe_a_def cafe_b_def)
  have merge: "composite_search_pois (db_source [cafe_a]) (external_source [cafe_a_again, cafe_b])
         (cafe_query 5) [] = (Inr [cafe_a, cafe_b], 1, [''db'', ''external''])"
    using composite_merge[where db_provider = "db_source [cafe_a]"
            and query = "cafe_query 5" and s = "[]"
            and external_provider = "external_source [cafe_a_again, cafe_b]",
            OF l n d x e r, THEN conjunct1] n
    by (simp add: cafe_query_def)
  have l2: "db_source [cafe_a, cafe_b] (cafe_query 2) [] = (Inr [cafe_a, cafe_b], [''db''])"
    by (simp add: db_source_def)
  have n2: "length [cafe_a, cafe_b] \<le> q_limit (cafe_query 2)"
    by (simp add: cafe_query_def)
  have d2: "distinct (map poi_id [cafe_a, cafe_b])"
    by (simp add: cafe_a_def cafe_b_def)
  have x2: "external_source [bistro_c] (cafe_query 2) [''db'']
       = (Inr [bistro_c], [''db'', ''external''])"
    by (simp add: external_source_def)
  have e2: "[bistro_c] =
       (case Inr [bistro_c] :: error + POICandidate list of Inl e \<Rightarrow> [] | Inr ps \<Rightarrow> ps)"
    by simp
  have r2: "[cafe_a, cafe_b] =
       take (q_limit (cafe_query 2)) (first_occurrences ([cafe_a, cafe_b] @ [bistro_c]))"
    by (simp add: first_occurrences_def enumerate_eq_zip cafe_query_def
          cafe_a_def cafe_b_def bistro_c_def)
  have enough: "composite_search_pois (db_source [cafe_a, cafe_b]) (external_source [bistro_c])
         (cafe_query 2) [] = (Inr [cafe_a, cafe_b], 0, [''db''])"
    using composite_merge[where db_provider = "db_source [cafe_a, cafe_b]"
            and query = "cafe_query 2" and s = "[]"
            and external_provider = "external_source [bistro_c]",
            OF l2 n2 d2 x2 e2 r2, THEN conjunct1]
    by (simp add: cafe_query_def)
  from l n d x r merge enough show ?thesis by simp
qed

section \<open>Properties of the travel-time provider factory\<close>

lemma map_eq_iff_list_all2: "map f xs = ys \<longleftrightarrow> list_all2 (\<lambda>x y. f x = y) xs ys"
  by (induction xs arbitrary: ys) (auto simp: list_all2_Cons1)

lemma lower_char_google_maps:
  "lower_char c = CHR ''g'' \<longleftrightarrow> same_letter c CHR ''g''"
  "lower_char c = CHR ''o'' \<longleftrightarrow> same_letter c CHR ''o''"
  "lower_char c = CHR ''l'' \<longleftrightarrow> same_letter c CHR ''l''"
  "lower_char c = CHR ''e'' \<longleftrightarrow> same_letter c CHR ''e''"
  "lower_char c = CHR ''_'' \<longleftrightarrow> same_letter c CHR ''_''"
  "lower_char c = CHR ''m'' \<longleftrightarrow> same_letter c CHR ''m''"
  "lower_char c = CHR ''a'' \<longleftrightarrow> same_letter c CHR ''a''"
  "lower_char c = CHR ''p'' \<longleftrightarrow> same_letter c CHR ''p''"
  "lower_char c = CHR ''s'' \<longleftrightarrow> same_letter c CHR ''s''"
  by (auto simp: lower_char_def same_letter_def)

lemma lower_google_maps:
  "lower s = ''google_maps'' \<longleftrightarrow> equal_ignoring_case s ''google_maps''"
  by (simp add: lower_def map_eq_iff_list_all2 equal_ignoring_case_def
        list_all2_Cons2 lower_char_google_maps)



text \<open>
  Claim C8.  The factory never raises.  It returns the primary provider, built with the
  configured key, when the configured name equals \<^verbatim>\<open>google_maps\<close> up to the case of its
  letters and the key is present and non-empty, and the heuristic provider in every other
  case.
\<close>

theorem factory_never_raises:
  "(\<forall>e. get_travel_time_provider settings \<noteq> Inl e)
   \<and> (equal_ignoring_case (travel_time_provider settings) ''google_maps''
        \<and> (\<exists>k. google_maps_api_key settings = Some k \<and> k \<noteq> []) \<longrightarrow>
      (\<exists>g. get_travel_time_provider settings = Inr (GoogleMapsTravelTimeProvider g)
           \<and> google_maps_api_key settings = Some (gm_api_key g)))
   \<and> (\<not> (equal_ignoring_case (travel_time_provider settings) ''google_maps''
          \<and> (\<exists>k. google_maps_api_key settings = Some k \<and> k \<noteq> [])) \<longrightarrow>
      get_travel_time_provider settings = Inr SimpleHeuristicTravelTimeProvider)"
  by (cases "google_maps_api_key settings")
     (auto simp: get_travel_time_provider_def new_google_maps_provider_def Let_def
        lower_google_maps)


lemma ignoring_case_examples:
  "equal_ignoring_case ''GOOGLE_MAPS'' ''google_maps''"
  "equal_ignoring_case ''Google_Maps'' ''google_maps''"
  "equal_ignoring_case ''google_maps'' ''google_maps''"
  "\<not> equal_ignoring_case ''simple'' ''google_maps''"
  "\<not> equal_ignoring_case ''unknown_provider'' ''google_maps''"
  "\<not> equal_ignoring_case ''google-maps'' ''google_maps''"
  by (simp_all add: equal_ignoring_case_def same_letter_def)

theorem factory_never_raises_witness:
  "(\<exists>g. get_travel_time_provider (test_settings ''GOOGLE_MAPS'' (Some ''test_key''))
          = Inr (GoogleMapsTravelTimeProvider g) \<and> gm_api_key g = ''test_key'')
   \<and> (\<exists>g. get_travel_time_provider (test_settings ''Google_Maps'' (Some ''test_key''))
          = Inr (GoogleMapsTravelTimeProvider g) \<and> gm_api_key g = ''test_key'')
   \<and> get_travel_time_provider (test_settings ''google_maps'' (Some []))
       = Inr SimpleHeuristicTravelTimeProvider
   \<and> get_travel_time_provider (test_settings ''google_maps'' None)
       = Inr SimpleHeuristicTravelTimeProvider
   \<and> get_travel_time_provider (test_settings ''simple'' (Some ''test_key''))
       = Inr SimpleHeuristicTravelTimeProvider
   \<and> get_travel_time_provider (test_settings ''unknown_provider'' None)
       = Inr SimpleHeuristicTravelTimeProvider
   \<and> get_travel_time_provider (test_settings ''google-maps'' (Some ''test_key''))
       = Inr SimpleHeuristicTravelTimeProvider"
proof -
  have a: "\<exists>g. get_travel_time_provider (test_settings ''GOOGLE_MAPS'' (Some ''test_key''))
          = Inr (GoogleMapsTravelTimeProvider g) \<and> gm_api_key g = ''test_key''"
    using factory_never_raises[of "test_settings ''GOOGLE_MAPS'' (Some ''test_key'')",
            THEN conjunct2, THEN conjunct1]
    by (auto simp: test_settings_def ignoring_case_examples)
  have a': "\<exists>g. get_travel_time_provider (test_settings ''Google_Maps'' (Some ''test_key''))
          = Inr (GoogleMapsTravelTimeProvider g) \<and> gm_api_key g = ''test_key''"
    using factory_never_raises[of "test_settings ''Google_Maps'' (Some ''test_key'')",
            THEN conjunct2, THEN conjunct1]
    by (auto simp: test_settings_def ignoring_case_examples)
  have b: "get_travel_time_provider (test_settings ''google_maps'' (Some []))
       = Inr SimpleHeuristicTravelTimeProvider"
    using factory_never_raises[of "test_settings ''google_maps'' (Some [])",
            THEN conjunct2, THEN conjunct2]
    by (simp add: test_settings_def)
  have c: "get_travel_time_provider (test_settings ''google_maps'' None)
       = Inr SimpleHeuristicTravelTimeProvider"
    using factory_never_raises[of "test_settings ''google_maps'' None",
            THEN conjunct2, THEN conjunct2]
    by (simp add: test_settings_def)
  have d: "get_travel_time_provider (test_settings ''simple'' (Some ''test_key''))
       = Inr SimpleHeuristicTravelTimeProvider"
    using factory_never_raises[of "test_settings ''simple'' (Some ''test_key'')",
            THEN conjunct2, THEN conjunct2]
    by (simp add: test_settings_def ignoring_case_examples)
  have e: "get_travel_time_provider (test_settings ''unknown_provider'' None)
       = Inr SimpleHeuristicTravelTimeProvider"
    using factory_never_raises[of "test_settings ''unknown_provider'' None",
            THEN conjunct2, THEN conjunct2]
    by (simp add: test_settings_def)
  have f: "get_travel_time_provider (test_settings ''google-maps'' (Some ''test_key''))
       = Inr SimpleHeuristicTravelTimeProvider"
    using factory_never_raises[of "test_settings ''google-maps'' (Some ''test_key'')",
            THEN conjunct2, THEN conjunct2]
    by (simp add: test_settings_def ignoring_case_examples)
  from a a' b c d e f show ?thesis by blast
qed


end
